theory Spec2Isabelle
  imports Main
begin

section \<open>JavaScript values\<close>

text \<open>
  Response bodies, the stored token and the stored user are untyped (\<open>any\<close>) in
  the client. They are modelled as JSON values; \<open>JNull\<close> stands for both
  \<open>null\<close> and \<open>undefined\<close> where a variable holds them, and a property
  read yields \<open>None\<close> for \<open>undefined\<close>. Numbers are the integers only.
  An object is an association list in the order of \<open>Object.keys\<close>.
\<close>

datatype json =
    JNull
  | JBool bool
  | JNum int
  | JStr string
  | JArr "json list"
  | JObj "(string \<times> json) list"

text \<open>Truthiness, as tested by \<open>if (v)\<close>, \<open>!v\<close> and \<open>v || d\<close>.\<close>

fun truthy :: "json \<Rightarrow> bool" where
  "truthy JNull = False"
| "truthy (JBool b) = b"
| "truthy (JNum n) = (n \<noteq> 0)"
| "truthy (JStr s) = (s \<noteq> [])"
| "truthy (JArr xs) = True"
| "truthy (JObj kvs) = True"

datatype js_type_error = PropertyOfNull string | NotAFunction string

text \<open>
  \<open>get_prop v k\<close> is the property read \<open>v.k\<close> for the property names the client
  reads from response bodies (\<open>token\<close>, \<open>key\<close>, \<open>access\<close>, \<open>refresh\<close>,
  \<open>user\<close>, \<open>user_id\<close>, \<open>message\<close>): it throws on \<open>null\<close>, is
  \<open>undefined\<close> on the other primitives and on arrays, and looks the key up in an object.
\<close>

fun get_prop :: "json \<Rightarrow> string \<Rightarrow> js_type_error + json option" where
  "get_prop JNull k = Inl (PropertyOfNull k)"
| "get_prop (JObj kvs) k = Inr (map_of kvs k)"
| "get_prop v k = Inr None"

definition truthy_opt :: "json option \<Rightarrow> bool" where
  "truthy_opt v = (case v of None \<Rightarrow> False | Some x \<Rightarrow> truthy x)"

definition of_undefined :: "json option \<Rightarrow> json" where
  "of_undefined v = (case v of None \<Rightarrow> JNull | Some x \<Rightarrow> x)"

text \<open>The property read on a value already known not to be \<open>null\<close>.\<close>

definition js_prop :: "json \<Rightarrow> string \<Rightarrow> json" where
  "js_prop v k = (case v of JObj kvs \<Rightarrow> of_undefined (map_of kvs k) | _ \<Rightarrow> JNull)"

subsection \<open>Strings\<close>

definition digit_char :: "nat \<Rightarrow> char" where
  "digit_char d = ''0123456789'' ! d"

fun show_nat :: "nat \<Rightarrow> string" where
  "show_nat n = (if n < 10 then [digit_char n] else show_nat (n div 10) @ [digit_char (n mod 10)])"

declare show_nat.simps [simp del]

definition show_int :: "int \<Rightarrow> string" where
  "show_int i = (if i < 0 then CHR ''-'' # show_nat (nat (- i)) else show_nat (nat i))"

fun intercalate :: "string \<Rightarrow> string list \<Rightarrow> string" where
  "intercalate sep [] = []"
| "intercalate sep [x] = x"
| "intercalate sep (x # y # ys) = x @ sep @ intercalate sep (y # ys)"

text \<open>\<open>String(v)\<close>, the conversion a template literal applies.\<close>

fun js_to_string :: "json \<Rightarrow> string" where
  "js_to_string JNull = ''null''"
| "js_to_string (JBool b) = (if b then ''true'' else ''false'')"
| "js_to_string (JNum n) = show_int n"
| "js_to_string (JStr s) = s"
| "js_to_string (JArr xs) =
     intercalate '','' (map (\<lambda>x. if x = JNull then [] else js_to_string x) xs)"
| "js_to_string (JObj kvs) = ''[object Object]''"

definition startsWith :: "string \<Rightarrow> string \<Rightarrow> bool" where
  "startsWith s p = (take (length p) s = p)"

text \<open>\<open>toLowerCase\<close> on the ASCII letters.\<close>

definition lower_char :: "char \<Rightarrow> char" where
  "lower_char c =
     (case map_of (zip ''ABCDEFGHIJKLMNOPQRSTUVWXYZ'' ''abcdefghijklmnopqrstuvwxyz'') c of
        Some l \<Rightarrow> l
      | None \<Rightarrow> c)"

definition toLowerCase :: "string \<Rightarrow> string" where
  "toLowerCase s = map lower_char s"

text \<open>\<open>s.split(c)\<close>: never empty, so \<open>pop()\<close> is its last element.\<close>

fun split_on :: "char \<Rightarrow> string \<Rightarrow> string list" where
  "split_on c [] = [[]]"
| "split_on c (x # xs) =
     (if x = c then [] # split_on c xs
      else (case split_on c xs of [] \<Rightarrow> [[x]] | w # ws \<Rightarrow> (x # w) # ws))"

section \<open>Requests, responses and errors\<close>

text \<open>The file objects handed to the upload: \<open>{uri, type, name}\<close>, each possibly missing.\<close>

record audio_file =
  file_uri :: "string option"
  file_type :: "string option"
  file_name :: "string option"

datatype form_value = FText string | FFile "audio_file option"

datatype payload =
    NoPayload
  | JsonPayload json
  | UrlEncoded "(string \<times> string) list"
  | FormData "(string \<times> form_value) list"

text \<open>
  An axios request config. \<open>retry\<close> is the \<open>_retry\<close> mark the response
  interceptor sets on a config it has already handled once.
\<close>

record config =
  url :: string
  authorization :: "string option"
  content_type :: string
  payload :: payload
  retry :: bool

record response =
  status :: nat
  data :: json

text \<open>
  The values the client throws or rejects with: \<open>new Error(message)\<close>, a runtime
  \<open>TypeError\<close>, the error of a failed AsyncStorage call, and the error of axios, which
  carries the config of the request and the response when the server answered
  (\<open>error.request\<close> is set on every axios error of a request that was sent).
\<close>

datatype js_error =
    Error string
  | TypeError js_type_error
  | StorageError
  | AxiosError "response option" config

fun err_response :: "js_error \<Rightarrow> response option" where
  "err_response (AxiosError r c) = r"
| "err_response e = None"

fun err_config :: "js_error \<Rightarrow> config option" where
  "err_config (AxiosError r c) = Some c"
| "err_config e = None"

fun err_request :: "js_error \<Rightarrow> bool" where
  "err_request (AxiosError r c) = True"
| "err_request e = False"

text \<open>\<open>error.message\<close>; axios words its own messages by the failure.\<close>

fun err_message :: "js_error \<Rightarrow> string" where
  "err_message (Error m) = m"
| "err_message (TypeError (PropertyOfNull k)) = ''Cannot read property '' @ k @ '' of null''"
| "err_message (TypeError (NotAFunction k)) = k @ '' is not a function''"
| "err_message StorageError = ''AsyncStorage error''"
| "err_message (AxiosError None c) = ''Network Error''"
| "err_message (AxiosError (Some r) c) = ''Request failed with status code '' @ show_nat (status r)"

text \<open>
  How a promise ends: resolved, rejected, or still pending in \<open>failedQueue\<close> with
  the config it will re-issue once the queue is processed.
\<close>

datatype 'a outcome = Resolved 'a | Rejected js_error | Queued config

datatype settlement = ResolveWith json | RejectWith js_error

section \<open>The environment\<close>

text \<open>
  What the network answers to the \<open>n\<close>-th request the client sends (counted over both
  axios instances, from 0), and whether the \<open>n\<close>-th call of AsyncStorage fails.
\<close>

datatype net_result = Responded response | NoResponse

record env =
  net :: "nat \<Rightarrow> net_result"
  storage_fails :: "nat \<Rightarrow> bool"

datatype axios_instance = Api | AuthApi

section \<open>Module state of \<open>services/api.ts\<close>\<close>

text \<open>
  The module variables \<open>authToken\<close>, \<open>currentUser\<close>, \<open>isRefreshing\<close>,
  \<open>failedQueue\<close> (each entry is the pending promise of one request, named by the
  config it re-issues) and whether \<open>navigationRef\<close> is set and ready; the contents of
  AsyncStorage (the user is stored as its JSON text, modelled by the value itself); and the
  record of what the client did: requests handed to the network, calls of AsyncStorage,
  navigation resets, settled queue entries, calls of \<open>refreshToken\<close>.
\<close>

record client =
  authToken :: json
  currentUser :: json
  isRefreshing :: bool
  failedQueue :: "config list"
  navigationReady :: bool
  storage :: "string \<Rightarrow> json option"
  sent :: "(axios_instance \<times> config) list"
  storage_calls :: nat
  redirects :: nat
  settled :: "(config \<times> settlement) list"
  refresh_calls :: nat

definition AUTH_TOKEN_KEY :: string where
  "AUTH_TOKEN_KEY = ''auth_token''"

definition USER_DATA_KEY :: string where
  "USER_DATA_KEY = ''user_data''"

definition REFRESH_TOKEN_KEY :: string where
  "REFRESH_TOKEN_KEY = ''refresh_token''"

text \<open>
  One awaited call of AsyncStorage that writes: it either throws (\<open>False\<close>) and leaves
  the storage as it was, or applies the update.
\<close>

definition storage_write ::
  "env \<Rightarrow> (string \<Rightarrow> json option) \<Rightarrow> client \<Rightarrow> client \<times> bool" where
  "storage_write e st s =
     (let k = storage_calls s; s1 = s\<lparr>storage_calls := k + 1\<rparr>
      in if storage_fails e k then (s1, False) else (s1\<lparr>storage := st\<rparr>, True))"

definition setItem :: "env \<Rightarrow> string \<Rightarrow> json \<Rightarrow> client \<Rightarrow> client \<times> bool" where
  "setItem e k v s = storage_write e ((storage s)(k \<mapsto> v)) s"

definition removeItem :: "env \<Rightarrow> string \<Rightarrow> client \<Rightarrow> client \<times> bool" where
  "removeItem e k s = storage_write e ((storage s)(k := None)) s"

definition multiRemove :: "env \<Rightarrow> string list \<Rightarrow> client \<Rightarrow> client \<times> bool" where
  "multiRemove e ks s = storage_write e (\<lambda>k. if k \<in> set ks then None else storage s k) s"

text \<open>\<open>getItem\<close>: \<open>None\<close> when the call throws, else the stored value or \<open>null\<close>.\<close>

definition getItem :: "env \<Rightarrow> string \<Rightarrow> client \<Rightarrow> client \<times> json option" where
  "getItem e k s =
     (let n = storage_calls s; s1 = s\<lparr>storage_calls := n + 1\<rparr>
      in if storage_fails e n then (s1, None) else (s1, Some (of_undefined (storage s k))))"

text \<open>The catch blocks of the three setters only log, so the setters never throw.\<close>

definition setAuthToken :: "env \<Rightarrow> json \<Rightarrow> client \<Rightarrow> client" where
  "setAuthToken e token s =
     (let s1 = s\<lparr>authToken := token\<rparr>
      in if truthy token then fst (setItem e AUTH_TOKEN_KEY token s1)
         else fst (removeItem e AUTH_TOKEN_KEY s1))"

definition setCurrentUser :: "env \<Rightarrow> json \<Rightarrow> client \<Rightarrow> client" where
  "setCurrentUser e user s =
     (let s1 = s\<lparr>currentUser := user\<rparr>
      in if truthy user then fst (setItem e USER_DATA_KEY user s1)
         else fst (removeItem e USER_DATA_KEY s1))"

definition clearAuth :: "env \<Rightarrow> client \<Rightarrow> client" where
  "clearAuth e s =
     fst (multiRemove e [AUTH_TOKEN_KEY, USER_DATA_KEY] (s\<lparr>authToken := JNull, currentUser := JNull\<rparr>))"

definition redirectToLogin :: "client \<Rightarrow> client" where
  "redirectToLogin s = (if navigationReady s then s\<lparr>redirects := redirects s + 1\<rparr> else s)"

text \<open>
  \<open>processQueue(error, token)\<close>: \<open>error\<close> is \<open>None\<close> for \<open>null\<close>; every value
  the client throws is an object, hence truthy.
\<close>

definition processQueue :: "js_error option \<Rightarrow> json \<Rightarrow> client \<Rightarrow> client" where
  "processQueue error token s =
     s\<lparr>settled := settled s @
          map (\<lambda>prom. (prom, case error of Some err \<Rightarrow> RejectWith err | None \<Rightarrow> ResolveWith token))
            (failedQueue s),
       failedQueue := []\<rparr>"

section \<open>The axios instances\<close>

text \<open>
  Handing a request to the network: it is recorded, and the answer is the environment's
  for this request number. Any status outside 200..299 is an axios error.
\<close>

definition dispatch ::
  "env \<Rightarrow> axios_instance \<Rightarrow> config \<Rightarrow> client \<Rightarrow> client \<times> (js_error + response)" where
  "dispatch e i c s =
     (let s1 = s\<lparr>sent := sent s @ [(i, c)]\<rparr>
      in case net e (length (sent s)) of
           NoResponse \<Rightarrow> (s1, Inl (AxiosError None c))
         | Responded r \<Rightarrow>
             if 200 \<le> status r \<and> status r < 300 then (s1, Inr r)
             else (s1, Inl (AxiosError (Some r) c)))"

text \<open>\<open>authApi\<close> of \<open>services/auth.ts\<close> has no interceptors.\<close>

definition authApi_post ::
  "env \<Rightarrow> string \<Rightarrow> string \<Rightarrow> payload \<Rightarrow> client \<Rightarrow> client \<times> (js_error + response)" where
  "authApi_post e u ct p s =
     dispatch e AuthApi \<lparr>url = u, authorization = None, content_type = ct, payload = p, retry = False\<rparr> s"

text \<open>The \<open>Authorization\<close> value both interceptors compute from a string token.\<close>

definition token_header :: "string \<Rightarrow> string" where
  "token_header t = (if startsWith t ''Token '' then t else ''Token '' @ t)"

text \<open>
  The request interceptor of \<open>api\<close>. A truthy token that is not a string has no
  \<open>startsWith\<close>, and the call throws.
\<close>

definition request_interceptor :: "client \<Rightarrow> config \<Rightarrow> js_error + config" where
  "request_interceptor s c =
     (if truthy (authToken s) then
        (case authToken s of
           JStr t \<Rightarrow> Inr (c\<lparr>authorization := Some (token_header t)\<rparr>)
         | _ \<Rightarrow> Inl (TypeError (NotAFunction ''authToken.startsWith'')))
      else Inr c)"

section \<open>\<open>refreshToken\<close> of \<open>services/auth.ts\<close>\<close>

text \<open>
  Everything is inside one try block whose handler clears the auth state and returns
  \<open>false\<close>, so \<open>refreshToken\<close> never throws.
\<close>

definition refreshToken :: "env \<Rightarrow> client \<Rightarrow> client \<times> bool" where
  "refreshToken e s =
     (case getItem e REFRESH_TOKEN_KEY (s\<lparr>refresh_calls := refresh_calls s + 1\<rparr>) of
        (s1, None) \<Rightarrow> (clearAuth e s1, False)
      | (s1, Some refreshToken') \<Rightarrow>
          if \<not> truthy refreshToken' then (s1, False)
          else
            (case authApi_post e ''/auth/token/refresh/'' ''application/json''
                    (JsonPayload (JObj [(''refresh'', refreshToken')])) s1 of
               (s2, Inl err) \<Rightarrow> (clearAuth e s2, False)
             | (s2, Inr r) \<Rightarrow>
                 (case get_prop (data r) ''access'' of
                    Inl te \<Rightarrow> (clearAuth e s2, False)
                  | Inr access \<Rightarrow>
                      if truthy_opt access then (setAuthToken e (of_undefined access) s2, True)
                      else (s2, False))))"

section \<open>The response interceptor of \<open>api\<close>\<close>

text \<open>The message of the 400 branch.\<close>

definition bad_request_message :: "json \<Rightarrow> string" where
  "bad_request_message d =
     (let errorMessage = ''Invalid request. Please check your data.'';
          first_error = (\<lambda>firstErrorKey firstError.
            if firstErrorKey \<noteq> [] \<and> truthy firstError then
              (case firstError of
                 JArr (x # xs) \<Rightarrow> firstErrorKey @ '': '' @ js_to_string x
               | JStr m \<Rightarrow> firstErrorKey @ '': '' @ m
               | _ \<Rightarrow> errorMessage)
            else errorMessage)
      in case d of
           JStr m \<Rightarrow> if m \<noteq> [] then m else errorMessage
         | JArr (x # xs) \<Rightarrow> first_error ''0'' x
         | JObj ((k, v) # kvs) \<Rightarrow> first_error k v
         | _ \<Rightarrow> errorMessage)"

text \<open>
  The try/catch/finally around the refresh. \<open>resend\<close> is \<open>api(originalRequest)\<close>:
  it is returned without being awaited, so its failure is not caught here and
  \<open>isRefreshing\<close> is reset before the re-issued request reaches the network.
\<close>

definition refresh_and_retry ::
  "(client \<Rightarrow> config \<Rightarrow> client \<times> response outcome) \<Rightarrow> env \<Rightarrow> client \<Rightarrow> config
     \<Rightarrow> client \<times> response outcome" where
  "refresh_and_retry resend e s originalRequest =
     (case refreshToken e s of
        (s1, True) \<Rightarrow>
          if truthy (authToken s1) then
            (case authToken s1 of
               JStr t \<Rightarrow>
                 resend (processQueue None (authToken s1) s1\<lparr>isRefreshing := False\<rparr>)
                   (originalRequest\<lparr>authorization := Some (token_header t)\<rparr>)
             | _ \<Rightarrow>
                 (let refreshError = TypeError (NotAFunction ''authToken.startsWith'')
                  in (redirectToLogin (clearAuth e (processQueue (Some refreshError) JNull s1))
                        \<lparr>isRefreshing := False\<rparr>,
                      Rejected refreshError)))
          else resend (processQueue None (authToken s1) s1\<lparr>isRefreshing := False\<rparr>) originalRequest
      | (s1, False) \<Rightarrow>
          (redirectToLogin
             (clearAuth e (processQueue (Some (Error ''Failed to refresh token'')) JNull s1))
             \<lparr>isRefreshing := False\<rparr>,
           Rejected (Error ''Session expired. Please log in again.'')))"

definition response_rejected ::
  "(client \<Rightarrow> config \<Rightarrow> client \<times> response outcome) \<Rightarrow> env \<Rightarrow> client \<Rightarrow> js_error
     \<Rightarrow> client \<times> response outcome" where
  "response_rejected resend e s error =
     (case (err_response error, err_config error) of
        (Some r, Some originalRequest) \<Rightarrow>
          if status r = 401 then
            (if retry originalRequest then
               (redirectToLogin (clearAuth e s),
                Rejected (Error ''Session expired. Please log in again.''))
             else if isRefreshing s then
               (s\<lparr>failedQueue := failedQueue s @ [originalRequest\<lparr>retry := True\<rparr>]\<rparr>,
                Queued (originalRequest\<lparr>retry := True\<rparr>))
             else
               refresh_and_retry resend e (s\<lparr>isRefreshing := True\<rparr>)
                 (originalRequest\<lparr>retry := True\<rparr>))
          else if status r = 403 then
            (s, Rejected (Error ''You do not have permission to perform this action.''))
          else if status r = 404 then
            (s, Rejected (Error ''The requested resource was not found.''))
          else if status r = 400 then
            (s, Rejected (Error (bad_request_message (data r))))
          else (s, Rejected error)
      | _ \<Rightarrow> (s, Rejected error))"

text \<open>
  A queued request continues when \<open>processQueue\<close> settles its entry: resolved, it
  re-issues its config; rejected, it rejects with the same error.
\<close>

definition queued_continue ::
  "(client \<Rightarrow> config \<Rightarrow> client \<times> response outcome) \<Rightarrow> client \<Rightarrow> config \<Rightarrow> settlement
     \<Rightarrow> client \<times> response outcome" where
  "queued_continue resend s originalRequest st =
     (case st of
        ResolveWith token \<Rightarrow> resend s originalRequest
      | RejectWith err \<Rightarrow> (s, Rejected err))"

text \<open>The interceptor re-issues only configs that carry the mark.\<close>

lemma refresh_and_retry_cong [fundef_cong]:
  assumes "e = e'" "s = s'" "c = c'" "\<And>s2 c2. retry c2 = retry c' \<Longrightarrow> f s2 c2 = g s2 c2"
  shows "refresh_and_retry f e s c = refresh_and_retry g e' s' c'"
  using assms by (auto simp: refresh_and_retry_def split: prod.splits bool.splits json.splits)

lemma response_rejected_cong [fundef_cong]:
  assumes "e = e'" "s = s'" "err = err'"
    "\<And>s2 c2 c0. err_config err' = Some c0 \<Longrightarrow> \<not> retry c0 \<Longrightarrow> retry c2 \<Longrightarrow> f s2 c2 = g s2 c2"
  shows "response_rejected f e s err = response_rejected g e' s' err'"
  unfolding response_rejected_def using assms
  by (auto split: option.splits intro!: refresh_and_retry_cong)

text \<open>
  \<open>api(config)\<close>: the request interceptor, the network, and on failure the response
  interceptor, which may call \<open>api\<close> again. An error thrown by the request interceptor
  reaches the response interceptor as well.
\<close>

function api_request :: "env \<Rightarrow> client \<Rightarrow> config \<Rightarrow> client \<times> response outcome" where
  "api_request e s c =
     (case request_interceptor s c of
        Inl err \<Rightarrow> response_rejected (api_request e) e s err
      | Inr c' \<Rightarrow>
          (case dispatch e Api c' s of
             (s1, Inr r) \<Rightarrow> (s1, Resolved r)
           | (s1, Inl err) \<Rightarrow> response_rejected (api_request e) e s1 err))"
  by pat_completeness auto

termination api_request
  apply (relation "measure (\<lambda>(e, s, c). if retry c then 0 else 1)")
   apply simp
  apply (auto simp: request_interceptor_def dispatch_def Let_def
      split: if_splits json.splits net_result.splits)
  done

declare api_request.simps [simp del]

section \<open>\<open>analyzeVoiceComparison\<close> of \<open>services/api.ts\<close>\<close>

text \<open>
  \<open>USE_MOCK_DATA\<close> is the constant \<open>false\<close> in both service modules; the mock
  branches are dead code and are left out.

  The validation block, run when the file is not null: \<open>None\<close> when it lets the
  file through, else the error it throws.
\<close>

definition file_extension :: "string \<Rightarrow> string" where
  "file_extension fileName = toLowerCase (last (split_on CHR ''.'' fileName))"

text \<open>\<open>userAudioFile.type || ''\<close> and \<open>userAudioFile.name || ''\<close>.\<close>

definition declared_type :: "audio_file \<Rightarrow> string" where
  "declared_type f = (case file_type f of None \<Rightarrow> [] | Some t \<Rightarrow> t)"

definition declared_name :: "audio_file \<Rightarrow> string" where
  "declared_name f = (case file_name f of None \<Rightarrow> [] | Some n \<Rightarrow> n)"

definition validate_audio :: "audio_file \<Rightarrow> js_error option" where
  "validate_audio userAudioFile =
     (let fileType = declared_type userAudioFile;
          fileName = declared_name userAudioFile;
          fileExtension = file_extension fileName;
          isMP3 = (fileType = ''audio/mp3'' \<or> fileType = ''audio/mpeg'' \<or> fileExtension = ''mp3'')
      in if \<not> isMP3 then
           Some (Error ''Invalid file type. Only MP3 audio files are accepted. Please upload an MP3 file.'')
         else if startsWith fileType ''video/'' \<or> fileExtension = ''mp4'' \<or> fileExtension = ''mov''
                 \<or> fileExtension = ''avi'' then
           Some (Error ''Video files are not accepted. Please upload an MP3 audio file.'')
         else None)"

text \<open>The catch block around the request: it always throws.\<close>

definition analyze_catch :: "env \<Rightarrow> string \<Rightarrow> client \<Rightarrow> js_error \<Rightarrow> client \<times> js_error" where
  "analyze_catch e originalClipId s error =
     (case err_response error of
        Some r \<Rightarrow>
          if status r = 401 then
            (setAuthToken e JNull s, Error ''Your session has expired. Please log in again.'')
          else if status r = 403 then
            (s, Error ''You do not have permission to perform this analysis.'')
          else if status r = 404 then
            (s, Error (''Original voice clip with ID '' @ originalClipId @ '' was not found.''))
          else if status r = 413 then
            (s, Error ''The audio file is too large. Please use a smaller file.'')
          else if status r = 415 then
            (s, Error ''The audio file format is not supported. Please upload an MP3 file.'')
          else
            (case get_prop (data r) ''message'' of
               Inl te \<Rightarrow> (s, TypeError te)
             | Inr m \<Rightarrow>
                 (s, Error (''Server error: '' @
                    (if truthy_opt m then js_to_string (of_undefined m) else ''Unknown error''))))
      | None \<Rightarrow>
          if err_request error then
            (s, Error ''No response from server. Please check your internet connection.'')
          else (s, Error (''Error: '' @ err_message error)))"

text \<open>What the function does with the outcome of \<open>api.post\<close>.\<close>

definition analyze_finish ::
  "env \<Rightarrow> string \<Rightarrow> client \<times> response outcome \<Rightarrow> client \<times> json outcome" where
  "analyze_finish e originalClipId res =
     (case res of
        (s1, Resolved r) \<Rightarrow> (s1, Resolved (data r))
      | (s1, Rejected error) \<Rightarrow>
          (case analyze_catch e originalClipId s1 error of (s2, err) \<Rightarrow> (s2, Rejected err))
      | (s1, Queued c) \<Rightarrow> (s1, Queued c))"

definition analyze_config :: "string \<Rightarrow> audio_file option \<Rightarrow> string \<Rightarrow> int \<Rightarrow> config" where
  "analyze_config originalClipId userAudioFile testId test_type =
     \<lparr>url = ''/analyze-voice/'', authorization = None, content_type = ''multipart/form-data'',
      payload = FormData
        [(''originalClipId'', FText originalClipId), (''userAudio'', FFile userAudioFile),
         (''test_id'', FText testId), (''test_type'', FText (show_int test_type))],
      retry = False\<rparr>"

definition analyzeVoiceComparison ::
  "env \<Rightarrow> client \<Rightarrow> string \<Rightarrow> audio_file option \<Rightarrow> string \<Rightarrow> int \<Rightarrow> client \<times> json outcome" where
  "analyzeVoiceComparison e s originalClipId userAudioFile testId test_type =
     (case (case userAudioFile of None \<Rightarrow> None | Some f \<Rightarrow> validate_audio f) of
        Some err \<Rightarrow> (s, Rejected err)
      | None \<Rightarrow>
          analyze_finish e originalClipId
            (api_request e s (analyze_config originalClipId userAudioFile testId test_type)))"

text \<open>
  When the request was queued behind a refresh, the function continues once its queue
  entry is settled.
\<close>

definition analyzeVoiceComparison_resume ::
  "env \<Rightarrow> client \<Rightarrow> string \<Rightarrow> config \<Rightarrow> settlement \<Rightarrow> client \<times> json outcome" where
  "analyzeVoiceComparison_resume e s originalClipId c st =
     analyze_finish e originalClipId (queued_continue (api_request e) s c st)"

section \<open>\<open>login\<close> and \<open>logout\<close> of \<open>services/auth.ts\<close>\<close>

record credentials =
  username :: string
  password :: string

text \<open>
  The token selection (the first read, of \<open>response.data.token\<close>, throws when the body
  is \<open>null\<close>), with the refresh token stored in the JWT case.
\<close>

definition login_token :: "env \<Rightarrow> client \<Rightarrow> json \<Rightarrow> client \<times> (js_error + json)" where
  "login_token e s d =
     (case get_prop d ''token'' of
        Inl te \<Rightarrow> (s, Inl (TypeError te))
      | Inr t \<Rightarrow>
          if truthy_opt t then (s, Inr (of_undefined t))
          else if truthy (js_prop d ''key'') then (s, Inr (js_prop d ''key''))
          else if truthy (js_prop d ''access'') then
            (if truthy (js_prop d ''refresh'') then
               (case setItem e REFRESH_TOKEN_KEY (js_prop d ''refresh'') s of
                  (s1, True) \<Rightarrow> (s1, Inr (js_prop d ''access''))
                | (s1, False) \<Rightarrow> (s1, Inl StorageError))
             else (s, Inr (js_prop d ''access'')))
          else (s, Inr JNull))"

text \<open>
  The user data, computed only when a token was found, that is only for an object body.
  \<open>{ id: user_id, ...data }\<close> keeps \<open>id\<close> first and lets the body's own \<open>id\<close> win.
\<close>

fun spread :: "json \<Rightarrow> (string \<times> json) list" where
  "spread (JObj kvs) = kvs"
| "spread v = []"

definition login_user_data :: "json \<Rightarrow> json" where
  "login_user_data d =
     (if truthy (js_prop d ''user'') then js_prop d ''user''
      else if truthy (js_prop d ''user_id'') then
        JObj ((''id'', case map_of (spread d) ''id'' of Some v \<Rightarrow> v | None \<Rightarrow> js_prop d ''user_id'')
              # filter (\<lambda>kv. fst kv \<noteq> ''id'') (spread d))
      else
        JObj (filter (\<lambda>kv. fst kv \<notin> {''token'', ''key'', ''access'', ''refresh''}) (spread d)))"

definition login_success :: "env \<Rightarrow> client \<Rightarrow> response \<Rightarrow> client \<times> (js_error + json)" where
  "login_success e s r =
     (case login_token e s (data r) of
        (s1, Inl err) \<Rightarrow> (s1, Inl err)
      | (s1, Inr token) \<Rightarrow>
          if truthy token then
            (setCurrentUser e (login_user_data (data r)) (setAuthToken e token s1), Inr (data r))
          else (s1, Inr (data r)))"

text \<open>
  The try block. The serialised payload of two string credentials always contains
  \<open>"password"\<close>, so that check never throws.
\<close>

definition login_try :: "env \<Rightarrow> client \<Rightarrow> credentials \<Rightarrow> client \<times> (js_error + json)" where
  "login_try e s cr =
     (if username cr = [] then (s, Inl (Error ''Username is required''))
      else if password cr = [] then (s, Inl (Error ''Password is required''))
      else
        (case authApi_post e ''/auth/login/'' ''application/json''
                (JsonPayload (JObj [(''username'', JStr (username cr)), (''password'', JStr (password cr))])) s of
           (s1, Inr r) \<Rightarrow> login_success e s1 r
         | (s1, Inl jsonError) \<Rightarrow>
             (case authApi_post e ''/auth/login/'' ''application/x-www-form-urlencoded''
                     (UrlEncoded [(''username'', username cr), (''password'', password cr)]) s1 of
                (s2, Inr r) \<Rightarrow> login_success e s2 r
              | (s2, Inl formError) \<Rightarrow> (s2, Inl formError))))"

definition login_catch :: "js_error \<Rightarrow> js_error" where
  "login_catch error =
     (case err_response error of
        Some r \<Rightarrow>
          if truthy (data r) then
            (if truthy (js_prop (data r) ''message'') then Error (js_to_string (js_prop (data r) ''message''))
             else (case data r of
                     JStr m \<Rightarrow> Error m
                   | _ \<Rightarrow> Error ''Login failed. Please try again.''))
          else Error ''Login failed. Please try again.''
      | None \<Rightarrow> Error ''Login failed. Please try again.'')"

definition login :: "env \<Rightarrow> client \<Rightarrow> credentials \<Rightarrow> client \<times> json outcome" where
  "login e s cr =
     (case login_try e s cr of
        (s1, Inr d) \<Rightarrow> (s1, Resolved d)
      | (s1, Inl error) \<Rightarrow> (s1, Rejected (login_catch error)))"

text \<open>
  \<open>logout\<close>: the catch block repeats the clean-up, and a failure of its
  \<open>removeItem\<close> is not caught.
\<close>

definition logout_catch :: "env \<Rightarrow> client \<Rightarrow> client \<times> unit outcome" where
  "logout_catch e s =
     (case removeItem e REFRESH_TOKEN_KEY (clearAuth e s) of
        (s1, True) \<Rightarrow> (s1, Resolved ())
      | (s1, False) \<Rightarrow> (s1, Rejected StorageError))"

definition logout :: "env \<Rightarrow> client \<Rightarrow> client \<times> unit outcome" where
  "logout e s =
     (case authApi_post e ''/auth/logout/'' ''application/json'' NoPayload s of
        (s1, Inr r) \<Rightarrow>
          (case removeItem e REFRESH_TOKEN_KEY (clearAuth e s1) of
             (s2, True) \<Rightarrow> (s2, Resolved ())
           | (s2, False) \<Rightarrow> logout_catch e s2)
      | (s1, Inl error) \<Rightarrow> logout_catch e s1)"

section \<open>The alignment engine\<close>

text \<open>
  Modelled from the spec: the alignment engine of section 4.3, which the repository does
  not contain (its sources hold the mobile client and a description of the backend API
  only). Frames hold a pitch estimate, absent for an unvoiced frame, the short-time energy,
  and a phonetic-unit label with its confidence; the numbers are fixed-point naturals.
\<close>

record frame =
  pitch :: "nat option"
  energy :: nat
  unit_label :: nat
  confidence :: nat

text \<open>
  Modelled from the spec: the tunables the specification leaves to the implementation, the
  two weights of the local cost and the half-width of the Sakoe-Chiba band.
\<close>

record tuning =
  pitch_weight :: nat
  label_weight :: nat
  band_width :: nat

text \<open>Modelled from the spec: the minimum frame count, "fewer than 3 frames" is too short.\<close>

definition MIN_FRAMES :: nat where
  "MIN_FRAMES = 3"

text \<open>
  Modelled from the spec: the per-frame cost, the pitch distance on frames that are both
  voiced combined with the phonetic-label mismatch.
\<close>

definition frame_cost :: "tuning \<Rightarrow> frame \<Rightarrow> frame \<Rightarrow> nat" where
  "frame_cost t u r =
     pitch_weight t * (case (pitch u, pitch r) of
                         (Some a, Some b) \<Rightarrow> (if a \<le> b then b - a else a - b)
                       | _ \<Rightarrow> 0)
     + label_weight t * (if unit_label u = unit_label r then 0 else 1)"

text \<open>
  Modelled from the spec: the band that bounds the local slack. For \<open>n\<close> user frames
  and \<open>m\<close> reference frames it is never narrower than their difference, so that the
  last cell lies inside.
\<close>

definition in_band :: "nat \<Rightarrow> nat \<Rightarrow> nat \<Rightarrow> nat \<Rightarrow> nat \<Rightarrow> bool" where
  "in_band w n m i j =
     (let width = max w (if n \<le> m then m - n else n - m) in i \<le> j + width \<and> j \<le> i + width)"

text \<open>
  Modelled from the spec: the cells a monotonic, continuous path can come from, in the
  order of the tie-break: the diagonal step first, then the cell closer to the diagonal.
\<close>

definition predecessors :: "nat \<Rightarrow> nat \<Rightarrow> (nat \<times> nat) list" where
  "predecessors i j =
     (if i = 0 \<and> j = 0 then []
      else if i = 0 then [(0, j - 1)]
      else if j = 0 then [(i - 1, 0)]
      else (i - 1, j - 1) # (if j \<le> i then [(i - 1, j), (i, j - 1)] else [(i, j - 1), (i - 1, j)]))"

text \<open>
  Modelled from the spec: the tie-break, the first element of least cost among those that
  have one.
\<close>

fun first_min :: "('a \<Rightarrow> nat option) \<Rightarrow> 'a list \<Rightarrow> 'a option" where
  "first_min f [] = None"
| "first_min f (x # xs) =
     (case f x of
        None \<Rightarrow> first_min f xs
      | Some d \<Rightarrow>
          (case first_min f xs of
             None \<Rightarrow> Some x
           | Some y \<Rightarrow> (case f y of Some d' \<Rightarrow> if d' < d then Some y else Some x | None \<Rightarrow> Some x)))"

lemma first_min_in: "first_min f xs = Some x \<Longrightarrow> x \<in> set xs \<and> f x \<noteq> None"
  by (induction xs) (auto split: option.splits if_splits)

lemma first_min_cong [fundef_cong]:
  "xs = ys \<Longrightarrow> (\<And>x. x \<in> set ys \<Longrightarrow> f x = g x) \<Longrightarrow> first_min f xs = first_min g ys"
proof (induction ys arbitrary: xs)
  case Nil
  then show ?case by simp
next
  case (Cons y ys)
  have ih: "first_min f ys = first_min g ys" using Cons by simp
  show ?case using Cons.prems ih first_min_in [of g ys]
    by (auto split: option.splits)
qed

lemma first_min_defined: "x \<in> set xs \<Longrightarrow> f x = Some d \<Longrightarrow> \<exists>y. first_min f xs = Some y"
  by (induction xs) (auto split: option.splits)

lemma predecessors_cases:
  "p \<in> set (predecessors i j) \<Longrightarrow>
     (0 < i \<and> 0 < j \<and> p = (i - 1, j - 1)) \<or> (0 < i \<and> p = (i - 1, j)) \<or> (0 < j \<and> p = (i, j - 1))"
  unfolding predecessors_def by (cases "i = 0"; cases "j = 0"; cases "j \<le> i"; simp; blast)

lemma predecessors_smaller: "(i', j') \<in> set (predecessors i j) \<Longrightarrow> i' + j' < i + j"
  by (drule predecessors_cases) auto

text \<open>
  Modelled from the spec: the accumulated cost of the best path from the first cell to
  cell \<open>(i, j)\<close>; a cell outside the band has none.
\<close>

function acc_cost :: "(nat \<Rightarrow> nat \<Rightarrow> nat) \<Rightarrow> (nat \<Rightarrow> nat \<Rightarrow> bool) \<Rightarrow> nat \<Rightarrow> nat \<Rightarrow> nat option" where
  "acc_cost c b i j =
     (if \<not> b i j then None
      else if i = 0 \<and> j = 0 then Some (c 0 0)
      else (case first_min (\<lambda>p. acc_cost c b (fst p) (snd p)) (predecessors i j) of
              None \<Rightarrow> None
            | Some p \<Rightarrow> map_option (\<lambda>d. d + c i j) (acc_cost c b (fst p) (snd p))))"
  by pat_completeness auto
termination
  apply (relation "measure (\<lambda>(c, b, i, j). i + j)")
    apply simp
   apply (auto dest: predecessors_smaller first_min_in simp del: first_min.simps)
  done

declare acc_cost.simps [simp del]

text \<open>Modelled from the spec: the warping path, read back from the last cell.\<close>

function backtrack ::
  "(nat \<Rightarrow> nat \<Rightarrow> nat) \<Rightarrow> (nat \<Rightarrow> nat \<Rightarrow> bool) \<Rightarrow> nat \<Rightarrow> nat \<Rightarrow> (nat \<times> nat) list option" where
  "backtrack c b i j =
     (if i = 0 \<and> j = 0 then Some [(0, 0)]
      else (case first_min (\<lambda>p. acc_cost c b (fst p) (snd p)) (predecessors i j) of
              None \<Rightarrow> None
            | Some p \<Rightarrow> map_option (\<lambda>ps. ps @ [(i, j)]) (backtrack c b (fst p) (snd p))))"
  by pat_completeness auto
termination
  apply (relation "measure (\<lambda>(c, b, i, j). i + j)")
   apply simp
  apply (metis (no_types, lifting) case_prod_conv first_min_in in_measure predecessors_smaller prod.collapse)
  done

declare backtrack.simps [simp del]

datatype alignment_error = AlignmentError

text \<open>
  Modelled from the spec: the Alignment, pairs of a user index and a reference index, with
  the accumulated cost and the local cost of each step kept for scoring.
\<close>

record alignment =
  path :: "(nat \<times> nat) list"
  path_cost :: nat
  step_costs :: "nat list"

text \<open>
  Modelled from the spec: the contract of section 4.3, two feature sequences (reference,
  user) to an Alignment, or \<open>AlignmentError\<close> when either is shorter than the minimum.
\<close>

definition align :: "tuning \<Rightarrow> frame list \<Rightarrow> frame list \<Rightarrow> alignment_error + alignment" where
  "align t reference user =
     (let n = length user; m = length reference
      in if n < MIN_FRAMES \<or> m < MIN_FRAMES then Inl AlignmentError
         else
           (let c = (\<lambda>i j. frame_cost t (user ! i) (reference ! j));
                b = in_band (band_width t) n m
            in case (backtrack c b (n - 1) (m - 1), acc_cost c b (n - 1) (m - 1)) of
                 (Some p, Some d) \<Rightarrow> Inr \<lparr>path = p, path_cost = d, step_costs = map (\<lambda>(i, j). c i j) p\<rparr>
               | _ \<Rightarrow> Inl AlignmentError))"

text \<open>
  The invariant of an Alignment in the words of the specification: the path is pinned to
  \<open>(0, 0)\<close> and \<open>(lastUser, lastRef)\<close>, non-decreasing in both indices, and without
  gaps: every user frame and every reference frame occurs, and each step advances either
  index by at most one.
\<close>

definition step :: "nat \<times> nat \<Rightarrow> nat \<times> nat \<Rightarrow> bool" where
  "step p q = ((fst q = fst p \<or> fst q = Suc (fst p)) \<and> (snd q = snd p \<or> snd q = Suc (snd p)) \<and> q \<noteq> p)"

fun steps_ok :: "(nat \<times> nat) list \<Rightarrow> bool" where
  "steps_ok [] = True"
| "steps_ok [p] = True"
| "steps_ok (p # q # ps) = (step p q \<and> steps_ok (q # ps))"

definition warping_path :: "nat \<Rightarrow> nat \<Rightarrow> (nat \<times> nat) list \<Rightarrow> bool" where
  "warping_path n m p =
     (p \<noteq> [] \<and> hd p = (0, 0) \<and> last p = (n - 1, m - 1)
      \<and> sorted (map fst p) \<and> sorted (map snd p)
      \<and> fst ` set p = {..<n} \<and> snd ` set p = {..<m}
      \<and> steps_ok p)"

section \<open>Concrete inputs\<close>

text \<open>The module state right after start-up, with navigation ready and nothing stored.\<close>

definition idle_client :: client where
  "idle_client =
     \<lparr>authToken = JNull, currentUser = JNull, isRefreshing = False, failedQueue = [],
      navigationReady = True, storage = (\<lambda>k. None), sent = [], storage_calls = 0, redirects = 0,
      settled = [], refresh_calls = 0\<rparr>"

text \<open>A server that answers every request with one status and body; storage never fails.\<close>

definition server_answers :: "nat \<Rightarrow> json \<Rightarrow> env" where
  "server_answers code body =
     \<lparr>net = (\<lambda>n. Responded \<lparr>status = code, data = body\<rparr>), storage_fails = (\<lambda>n. False)\<rparr>"

text \<open>The accepted set in the words of the specification: mp3, mp4, wav, m4a.\<close>

definition spec_accepted_set :: "string list" where
  "spec_accepted_set = [''mp3'', ''mp4'', ''wav'', ''m4a'']"

definition wav_recording :: audio_file where
  "wav_recording =
     \<lparr>file_uri = Some ''file:///take.wav'', file_type = Some ''audio/wav'', file_name = Some ''take.wav''\<rparr>"

definition mp3_recording :: audio_file where
  "mp3_recording =
     \<lparr>file_uri = Some ''file:///take.mp3'', file_type = Some ''audio/mp3'', file_name = Some ''take.mp3''\<rparr>"

definition spoofed_video :: audio_file where
  "spoofed_video =
     \<lparr>file_uri = Some ''file:///clip.mp3'', file_type = Some ''video/mp4'', file_name = Some ''clip.mp3''\<rparr>"

definition plain_request :: config where
  "plain_request =
     \<lparr>url = ''/voice-clips'', authorization = None, content_type = ''application/json'',
      payload = NoPayload, retry = False\<rparr>"

definition unauthorized :: response where
  "unauthorized = \<lparr>status = 401, data = JNull\<rparr>"

text \<open>A client holding a token while another request's refresh is under way.\<close>

definition refreshing_client :: client where
  "refreshing_client = idle_client\<lparr>authToken := JStr ''abc123'', isRefreshing := True\<rparr>"

definition ann :: credentials where
  "ann = \<lparr>username = ''ann'', password = ''secret''\<rparr>"

text \<open>A client after a JWT login: token, user and refresh token in memory and in storage.\<close>

definition logged_in_client :: client where
  "logged_in_client =
     idle_client\<lparr>authToken := JStr ''abc123'', currentUser := JObj [(''id'', JNum 7)],
       storage := [AUTH_TOKEN_KEY \<mapsto> JStr ''abc123'', USER_DATA_KEY \<mapsto> JObj [(''id'', JNum 7)],
                   REFRESH_TOKEN_KEY \<mapsto> JStr ''r1'']\<rparr>"

text \<open>The server answers 200 to everything, and every AsyncStorage call fails.\<close>

definition storage_broken :: env where
  "storage_broken =
     \<lparr>net = (\<lambda>n. Responded \<lparr>status = 200, data = JObj []\<rparr>), storage_fails = (\<lambda>n. True)\<rparr>"

text \<open>
  A server that answers 401 to the first request, a fresh access token to the second (the
  refresh) and 200 to every later one; storage never fails.
\<close>

definition refreshing_server :: env where
  "refreshing_server =
     \<lparr>net = (\<lambda>n. if n = 0 then Responded \<lparr>status = 401, data = JNull\<rparr>
                  else if n = 1 then Responded \<lparr>status = 200, data = JObj [(''access'', JStr ''fresh'')]\<rparr>
                  else Responded \<lparr>status = 200, data = JObj [(''similarityScore'', JNum 1)]\<rparr>),
      storage_fails = (\<lambda>n. False)\<rparr>"

text \<open>Frames and tunables for the alignment engine.\<close>

definition voiced_low :: frame where
  "voiced_low = \<lparr>pitch = Some 100, energy = 5, unit_label = 1, confidence = 9\<rparr>"

definition voiced_high :: frame where
  "voiced_high = \<lparr>pitch = Some 120, energy = 5, unit_label = 2, confidence = 9\<rparr>"

definition silence :: frame where
  "silence = \<lparr>pitch = None, energy = 0, unit_label = 0, confidence = 1\<rparr>"

definition narrow_band :: tuning where
  "narrow_band = \<lparr>pitch_weight = 1, label_weight = 10, band_width = 1\<rparr>"

section \<open>The response \<open>login\<close> works on\<close>

definition ok_status :: "response \<Rightarrow> bool" where
  "ok_status r = (200 \<le> status r \<and> status r < 300)"

text \<open>
  The 2xx response \<open>login\<close> works on, if there is one: the answer to the JSON attempt,
  or else the answer to the form-encoded attempt.
\<close>

definition login_response :: "env \<Rightarrow> client \<Rightarrow> response option" where
  "login_response e s =
     (let second = (case net e (Suc (length (sent s))) of
                      Responded r2 \<Rightarrow> if ok_status r2 then Some r2 else None
                    | NoResponse \<Rightarrow> None)
      in case net e (length (sent s)) of
           Responded r \<Rightarrow> if ok_status r then Some r else second
         | NoResponse \<Rightarrow> second)"

section \<open>What each operation leaves unchanged\<close>


lemma storage_write_proj [simp]:
  "authToken (fst (storage_write e st s)) = authToken s"
  "currentUser (fst (storage_write e st s)) = currentUser s"
  "isRefreshing (fst (storage_write e st s)) = isRefreshing s"
  "failedQueue (fst (storage_write e st s)) = failedQueue s"
  "navigationReady (fst (storage_write e st s)) = navigationReady s"
  "sent (fst (storage_write e st s)) = sent s"
  "redirects (fst (storage_write e st s)) = redirects s"
  "settled (fst (storage_write e st s)) = settled s"
  "refresh_calls (fst (storage_write e st s)) = refresh_calls s"
  "storage_calls (fst (storage_write e st s)) = Suc (storage_calls s)"
  by (simp_all add: storage_write_def Let_def)

lemma storage_write_storage:
  "storage (fst (storage_write e st s)) = (if storage_fails e (storage_calls s) then storage s else st)"
  "snd (storage_write e st s) = (\<not> storage_fails e (storage_calls s))"
  by (simp_all add: storage_write_def Let_def)

lemma clearAuth_proj [simp]:
  "authToken (clearAuth e s) = JNull"
  "currentUser (clearAuth e s) = JNull"
  "isRefreshing (clearAuth e s) = isRefreshing s"
  "failedQueue (clearAuth e s) = failedQueue s"
  "navigationReady (clearAuth e s) = navigationReady s"
  "sent (clearAuth e s) = sent s"
  "redirects (clearAuth e s) = redirects s"
  "settled (clearAuth e s) = settled s"
  "refresh_calls (clearAuth e s) = refresh_calls s"
  "storage_calls (clearAuth e s) = Suc (storage_calls s)"
  by (simp_all add: clearAuth_def multiRemove_def)

lemma clearAuth_storage:
  "storage (clearAuth e s) k =
     (if storage_fails e (storage_calls s) then storage s k
      else if k = AUTH_TOKEN_KEY \<or> k = USER_DATA_KEY then None else storage s k)"
  by (simp add: clearAuth_def multiRemove_def storage_write_storage)

lemma setAuthToken_proj [simp]:
  "authToken (setAuthToken e t s) = t"
  "currentUser (setAuthToken e t s) = currentUser s"
  "isRefreshing (setAuthToken e t s) = isRefreshing s"
  "failedQueue (setAuthToken e t s) = failedQueue s"
  "navigationReady (setAuthToken e t s) = navigationReady s"
  "sent (setAuthToken e t s) = sent s"
  "redirects (setAuthToken e t s) = redirects s"
  "settled (setAuthToken e t s) = settled s"
  "refresh_calls (setAuthToken e t s) = refresh_calls s"
  "storage_calls (setAuthToken e t s) = Suc (storage_calls s)"
  by (simp_all add: setAuthToken_def setItem_def removeItem_def Let_def)

lemma redirectToLogin_proj [simp]:
  "authToken (redirectToLogin s) = authToken s"
  "currentUser (redirectToLogin s) = currentUser s"
  "isRefreshing (redirectToLogin s) = isRefreshing s"
  "failedQueue (redirectToLogin s) = failedQueue s"
  "navigationReady (redirectToLogin s) = navigationReady s"
  "sent (redirectToLogin s) = sent s"
  "storage (redirectToLogin s) = storage s"
  "storage_calls (redirectToLogin s) = storage_calls s"
  "settled (redirectToLogin s) = settled s"
  "refresh_calls (redirectToLogin s) = refresh_calls s"
  by (simp_all add: redirectToLogin_def)

lemma processQueue_proj [simp]:
  "authToken (processQueue er t s) = authToken s"
  "currentUser (processQueue er t s) = currentUser s"
  "isRefreshing (processQueue er t s) = isRefreshing s"
  "failedQueue (processQueue er t s) = []"
  "navigationReady (processQueue er t s) = navigationReady s"
  "sent (processQueue er t s) = sent s"
  "storage (processQueue er t s) = storage s"
  "storage_calls (processQueue er t s) = storage_calls s"
  "redirects (processQueue er t s) = redirects s"
  "refresh_calls (processQueue er t s) = refresh_calls s"
  by (simp_all add: processQueue_def)

lemma dispatch_sent [simp]: "sent (fst (dispatch e i c s)) = sent s @ [(i, c)]"
  by (simp add: dispatch_def Let_def split: net_result.splits)

lemma refreshToken_sent: "\<exists>ys. sent (fst (refreshToken e s)) = sent s @ ys"
  by (auto simp: refreshToken_def getItem_def authApi_post_def Let_def dispatch_def split: prod.splits option.splits sum.splits net_result.splits)



lemma refresh_and_retry_sent:
  assumes "\<And>s2 c2. retry c2 = retry c \<Longrightarrow> \<exists>ys. sent (fst (f s2 c2)) = sent s2 @ ys"
  shows "\<exists>ys. sent (fst (refresh_and_retry f e s c)) = sent s @ ys"
proof (cases "refreshToken e s")
  case (Pair s1 ok)
  obtain ys where ys: "sent s1 = sent s @ ys"
    using refreshToken_sent [of e s] Pair by auto
  show ?thesis
  proof (cases ok)
    case False
    then show ?thesis using Pair ys by (simp add: refresh_and_retry_def)
  next
    case True
    have r: "\<exists>zs. sent (fst (f s2 c2)) = sent s @ zs"
      if "retry c2 = retry c" "sent s2 = sent s1" for s2 c2
    proof -
      from assms [OF that(1)] obtain zs where "sent (fst (f s2 c2)) = sent s2 @ zs" by blast
      then show ?thesis using that(2) ys by simp
    qed
    show ?thesis
    proof (cases "authToken s1")
      case (JStr t)
      show ?thesis
        unfolding refresh_and_retry_def using Pair True JStr
        by (simp add: r)
    qed (use Pair True ys in \<open>simp_all add: refresh_and_retry_def r Let_def\<close>)
  qed
qed

lemma response_rejected_sent:
  assumes "\<And>s2 c2 c0. err_config err = Some c0 \<Longrightarrow> \<not> retry c0 \<Longrightarrow> retry c2
             \<Longrightarrow> \<exists>ys. sent (fst (f s2 c2)) = sent s2 @ ys"
  shows "\<exists>ys. sent (fst (response_rejected f e s err)) = sent s @ ys"
proof -
  have "\<exists>ys. sent (fst (refresh_and_retry f e (s\<lparr>isRefreshing := True\<rparr>) (c0\<lparr>retry := True\<rparr>))) = sent s @ ys"
    if "err_config err = Some c0" "\<not> retry c0" for c0
    using refresh_and_retry_sent [of "c0\<lparr>retry := True\<rparr>" f e "s\<lparr>isRefreshing := True\<rparr>"] assms [OF that]
    by simp
  then show ?thesis
    by (auto simp: response_rejected_def split: option.splits)
qed

lemma api_request_sent_ext: "\<exists>ys. sent (fst (api_request e s c)) = sent s @ ys"
proof (induction e s c rule: api_request.induct)
  case (1 e s c)
  show ?case
  proof (cases "request_interceptor s c")
    case (Inl err)
    then show ?thesis
      using response_rejected_sent [of err "api_request e" e s] "1.IH"(1)
      by (simp add: api_request.simps [of e s c])
  next
    case (Inr c')
    obtain s1 res where d: "dispatch e Api c' s = (s1, res)" by (cases "dispatch e Api c' s")
    have s1: "sent s1 = sent s @ [(Api, c')]" using dispatch_sent [of e Api c' s] d by simp
    show ?thesis
    proof (cases res)
      case (Inr r)
      then show ?thesis using Inr d s1 \<open>request_interceptor s c = Inr c'\<close>
        by (simp add: api_request.simps [of e s c])
    next
      case (Inl err)
      have "\<exists>ys. sent (fst (response_rejected (api_request e) e s1 err)) = sent s1 @ ys"
        by (rule response_rejected_sent) (rule "1.IH"(2) [OF \<open>request_interceptor s c = Inr c'\<close> d [symmetric] Inl])
      then show ?thesis using Inl d s1 \<open>request_interceptor s c = Inr c'\<close>
        by (auto simp add: api_request.simps [of e s c])
    qed
  qed
qed


lemma analyze_finish_sent [simp]: "sent (fst (analyze_finish e cid res)) = sent (fst res)"
  by (auto simp: analyze_finish_def analyze_catch_def
      split: prod.splits outcome.splits option.splits sum.splits)

text \<open>A request that passes the request interceptor is handed to the network first.\<close>

lemma api_request_sends:
  assumes "request_interceptor s c = Inr c'"
  shows "\<exists>rest. sent (fst (api_request e s c)) = sent s @ (Api, c') # rest"
proof -
  obtain s1 res where d: "dispatch e Api c' s = (s1, res)" by (cases "dispatch e Api c' s")
  have s1: "sent s1 = sent s @ [(Api, c')]" using dispatch_sent [of e Api c' s] d by simp
  show ?thesis
  proof (cases res)
    case (Inr r)
    then show ?thesis using assms d s1 by (simp add: api_request.simps [of e s c])
  next
    case (Inl err)
    obtain ys where "sent (fst (response_rejected (api_request e) e s1 err)) = sent s1 @ ys"
      using response_rejected_sent [of err "api_request e" e s1] api_request_sent_ext by blast
    then show ?thesis using Inl assms d s1 by (simp add: api_request.simps [of e s c])
  qed
qed

lemma setCurrentUser_proj [simp]:
  "authToken (setCurrentUser e u s) = authToken s"
  "currentUser (setCurrentUser e u s) = u"
  "sent (setCurrentUser e u s) = sent s"
  "storage_calls (setCurrentUser e u s) = Suc (storage_calls s)"
  by (simp_all add: setCurrentUser_def setItem_def removeItem_def Let_def)

lemma setCurrentUser_storage:
  "k \<noteq> USER_DATA_KEY \<Longrightarrow> storage (setCurrentUser e u s) k = storage s k"
  by (simp add: setCurrentUser_def setItem_def removeItem_def storage_write_storage Let_def)

lemma setAuthToken_storage:
  "k \<noteq> AUTH_TOKEN_KEY \<Longrightarrow> storage (setAuthToken e t s) k = storage s k"
  by (simp add: setAuthToken_def setItem_def removeItem_def storage_write_storage Let_def)

lemma keys_distinct [simp]:
  "REFRESH_TOKEN_KEY \<noteq> AUTH_TOKEN_KEY" "REFRESH_TOKEN_KEY \<noteq> USER_DATA_KEY" "AUTH_TOKEN_KEY \<noteq> USER_DATA_KEY"
  "AUTH_TOKEN_KEY \<noteq> REFRESH_TOKEN_KEY" "USER_DATA_KEY \<noteq> REFRESH_TOKEN_KEY" "USER_DATA_KEY \<noteq> AUTH_TOKEN_KEY"
  by (simp_all add: REFRESH_TOKEN_KEY_def AUTH_TOKEN_KEY_def USER_DATA_KEY_def)

lemma get_prop_not_null: "d \<noteq> JNull \<Longrightarrow> \<exists>v. get_prop d k = Inr v \<and> of_undefined v = js_prop d k \<and> truthy_opt v = truthy (js_prop d k)"
  by (cases d) (simp_all add: js_prop_def of_undefined_def truthy_opt_def split: option.splits)

lemma removeItem_proj [simp]:
  "authToken (fst (removeItem e k s)) = authToken s"
  "currentUser (fst (removeItem e k s)) = currentUser s"
  by (simp_all add: removeItem_def)

lemma request_interceptor_retry: "request_interceptor s c = Inr c' \<Longrightarrow> retry c' = retry c"
  by (auto simp: request_interceptor_def split: if_splits json.splits)

lemma request_interceptor_typed:
  assumes "authToken s = JNull \<or> (\<exists>t. authToken s = JStr t)"
  shows "\<exists>c'. request_interceptor s c = Inr c' \<and> retry c' = retry c"
  using assms by (auto simp: request_interceptor_def)

section \<open>Client-side validation of the upload\<close>

text \<open>
  C1, as stated, fails: a WAV recording, whose extension is in the accepted set of the
  specification, is rejected by the client before anything is sent (the state, and with it
  the list of sent requests, is unchanged).
\<close>

theorem accepted_set_counterexample:
  "file_extension (declared_name wav_recording) \<in> set spec_accepted_set
   \<and> analyzeVoiceComparison (server_answers 200 JNull) idle_client ''clip-1'' (Some wav_recording) ''test-1'' 0
       = (idle_client,
          Rejected (Error ''Invalid file type. Only MP3 audio files are accepted. Please upload an MP3 file.''))"
  by (simp add: wav_recording_def declared_name_def declared_type_def file_extension_def toLowerCase_def
      lower_char_def spec_accepted_set_def analyzeVoiceComparison_def validate_audio_def)

text \<open>
  C1, amended: a non-null file passes the client-side validation exactly when its MIME
  type is \<open>audio/mp3\<close> or \<open>audio/mpeg\<close> or its extension is \<open>mp3\<close>, and it is
  not video (MIME type starting with \<open>video/\<close>, or extension mp4, mov or avi). A file
  that does not pass makes the operation throw with the state unchanged, so before any
  network request; a file that passes is uploaded: the request, as the request interceptor
  leaves it, is the next one handed to the network.
\<close>

theorem mp3_only_validation:
  "(validate_audio f = None \<longleftrightarrow>
      (declared_type f = ''audio/mp3'' \<or> declared_type f = ''audio/mpeg''
         \<or> file_extension (declared_name f) = ''mp3'')
      \<and> \<not> startsWith (declared_type f) ''video/''
      \<and> file_extension (declared_name f) \<notin> {''mp4'', ''mov'', ''avi''})
   \<and> (validate_audio f \<noteq> None \<longrightarrow>
        (\<exists>err. analyzeVoiceComparison e s originalClipId (Some f) testId test_type = (s, Rejected err)))
   \<and> (validate_audio f = None \<longrightarrow>
        (\<forall>c'. request_interceptor s (analyze_config originalClipId (Some f) testId test_type) = Inr c' \<longrightarrow>
          (\<exists>rest. sent (fst (analyzeVoiceComparison e s originalClipId (Some f) testId test_type))
                    = sent s @ (Api, c') # rest)))"
proof (intro conjI impI allI)
  show "validate_audio f = None \<longleftrightarrow>
      (declared_type f = ''audio/mp3'' \<or> declared_type f = ''audio/mpeg''
         \<or> file_extension (declared_name f) = ''mp3'')
      \<and> \<not> startsWith (declared_type f) ''video/''
      \<and> file_extension (declared_name f) \<notin> {''mp4'', ''mov'', ''avi''}"
    by (auto simp: validate_audio_def Let_def)
next
  assume "validate_audio f \<noteq> None"
  then show "\<exists>err. analyzeVoiceComparison e s originalClipId (Some f) testId test_type = (s, Rejected err)"
    by (auto simp: analyzeVoiceComparison_def)
next
  fix c'
  assume "validate_audio f = None"
    and "request_interceptor s (analyze_config originalClipId (Some f) testId test_type) = Inr c'"
  then show "\<exists>rest. sent (fst (analyzeVoiceComparison e s originalClipId (Some f) testId test_type))
                    = sent s @ (Api, c') # rest"
    using api_request_sends [of s "analyze_config originalClipId (Some f) testId test_type" c' e]
    by (simp add: analyzeVoiceComparison_def)
qed

text \<open>
  C1, amended, at an MP3 recording (accepted and sent) and at a WAV recording (rejected
  with nothing sent).
\<close>

theorem mp3_only_validation_witness:
  "validate_audio mp3_recording = None
   \<and> validate_audio wav_recording \<noteq> None
   \<and> (\<exists>rest. sent (fst (analyzeVoiceComparison (server_answers 200 JNull) idle_client ''clip-1''
                         (Some mp3_recording) ''test-1'' 0))
         = (Api, analyze_config ''clip-1'' (Some mp3_recording) ''test-1'' 0) # rest)
   \<and> (\<exists>err. analyzeVoiceComparison (server_answers 200 JNull) idle_client ''clip-1''
         (Some wav_recording) ''test-1'' 0 = (idle_client, Rejected err))"
  using mp3_only_validation [of mp3_recording "server_answers 200 JNull" idle_client "''clip-1''" "''test-1''" 0]
    mp3_only_validation [of wav_recording "server_answers 200 JNull" idle_client "''clip-1''" "''test-1''" 0]
  by (simp add: mp3_recording_def wav_recording_def declared_name_def declared_type_def file_extension_def
      toLowerCase_def lower_char_def startsWith_def request_interceptor_def idle_client_def)

text \<open>
  C5: a file whose MIME type starts with \<open>video/\<close>, or whose extension is mp4, mov or
  avi, makes \<open>analyzeVoiceComparison\<close> throw with the state unchanged, hence before any
  network request, whatever the other attribute of the file says.
\<close>

theorem video_input_rejected:
  assumes "startsWith (declared_type f) ''video/''
           \<or> file_extension (declared_name f) \<in> {''mp4'', ''mov'', ''avi''}"
  shows "\<exists>err. analyzeVoiceComparison e s originalClipId (Some f) testId test_type = (s, Rejected err)"
  using assms by (auto simp: analyzeVoiceComparison_def validate_audio_def Let_def)

text \<open>C5 at a video whose name was given the extension of an MP3 file.\<close>

theorem video_input_rejected_witness:
  "startsWith (declared_type spoofed_video) ''video/''
   \<and> (\<exists>err. analyzeVoiceComparison (server_answers 200 JNull) idle_client ''clip-1''
         (Some spoofed_video) ''test-1'' 0 = (idle_client, Rejected err))"
  using video_input_rejected [of spoofed_video "server_answers 200 JNull" idle_client "''clip-1''" "''test-1''" 0]
  by (simp add: spoofed_video_def declared_type_def startsWith_def)

text \<open>
  C10: with a null stored token, and a file that is null or passes validation,
  \<open>analyzeVoiceComparison\<close> does not throw for the missing token: the next request handed
  to the network is the multipart upload exactly as the function built it, with no
  \<open>Authorization\<close> header.
\<close>

theorem missing_token_still_sends:
  assumes "authToken s = JNull"
    and "userAudioFile = None \<or> (\<exists>f. userAudioFile = Some f \<and> validate_audio f = None)"
  shows "(\<exists>rest. sent (fst (analyzeVoiceComparison e s originalClipId userAudioFile testId test_type))
            = sent s @ (Api, analyze_config originalClipId userAudioFile testId test_type) # rest)
         \<and> authorization (analyze_config originalClipId userAudioFile testId test_type) = None
         \<and> content_type (analyze_config originalClipId userAudioFile testId test_type) = ''multipart/form-data''"
proof -
  let ?c = "analyze_config originalClipId userAudioFile testId test_type"
  have "request_interceptor s ?c = Inr ?c"
    using assms(1) by (simp add: request_interceptor_def)
  then obtain rest where "sent (fst (api_request e s ?c)) = sent s @ (Api, ?c) # rest"
    using api_request_sends by blast
  moreover have "analyzeVoiceComparison e s originalClipId userAudioFile testId test_type
      = analyze_finish e originalClipId (api_request e s ?c)"
    using assms(2) by (auto simp: analyzeVoiceComparison_def)
  ultimately show ?thesis by (simp add: analyze_config_def)
qed

text \<open>C10 at the idle client (no token) and an MP3 recording.\<close>

theorem missing_token_still_sends_witness:
  "authToken idle_client = JNull \<and> validate_audio mp3_recording = None
   \<and> (\<exists>rest. sent (fst (analyzeVoiceComparison (server_answers 200 JNull) idle_client ''clip-1''
                         (Some mp3_recording) ''test-1'' 0))
         = (Api, analyze_config ''clip-1'' (Some mp3_recording) ''test-1'' 0) # rest)
   \<and> authorization (analyze_config ''clip-1'' (Some mp3_recording) ''test-1'' 0) = None"
  using missing_token_still_sends [of idle_client "Some mp3_recording" "server_answers 200 JNull"
      "''clip-1''" "''test-1''" 0]
  by (simp add: mp3_recording_def declared_name_def declared_type_def file_extension_def
      toLowerCase_def lower_char_def startsWith_def idle_client_def validate_audio_def)

section \<open>The \<open>Authorization\<close> header\<close>

text \<open>
  C9, as stated, fails: the empty string is a stored token that is not null, yet it is
  falsy, and the request interceptor attaches no header.
\<close>

theorem empty_token_counterexample:
  "authToken (idle_client\<lparr>authToken := JStr ''''\<rparr>) \<noteq> JNull
   \<and> request_interceptor (idle_client\<lparr>authToken := JStr ''''\<rparr>) plain_request = Inr plain_request
   \<and> authorization plain_request = None"
  by (simp add: request_interceptor_def plain_request_def idle_client_def)

text \<open>
  C9, amended: for every outgoing request with a non-empty stored string token, the
  \<open>Authorization\<close> header the request interceptor attaches, and with which the request
  goes to the network, is the token itself when the token starts with \<open>Token \<close> and
  \<open>Token \<close> followed by the token otherwise. The header always starts with \<open>Token \<close>,
  a token stored with the prefix is sent as it is, and computing the header is idempotent.
\<close>

theorem token_prefix_header:
  assumes "authToken s = JStr t" and "t \<noteq> []"
  shows "request_interceptor s c
           = Inr (c\<lparr>authorization := Some (if startsWith t ''Token '' then t else ''Token '' @ t)\<rparr>)
         \<and> (\<exists>rest. sent (fst (api_request e s c))
               = sent s @ (Api, c\<lparr>authorization := Some (if startsWith t ''Token '' then t else ''Token '' @ t)\<rparr>) # rest)
         \<and> startsWith (if startsWith t ''Token '' then t else ''Token '' @ t) ''Token ''
         \<and> token_header (''Token '' @ t) = ''Token '' @ t
         \<and> token_header (token_header t) = token_header t"
proof -
  have ri: "request_interceptor s c
      = Inr (c\<lparr>authorization := Some (if startsWith t ''Token '' then t else ''Token '' @ t)\<rparr>)"
    using assms by (simp add: request_interceptor_def token_header_def)
  from api_request_sends [OF ri, of e] ri show ?thesis
    by (simp add: token_header_def startsWith_def)
qed

text \<open>C9, amended, at a token stored bare and at the same token stored with its prefix.\<close>

theorem token_prefix_header_witness:
  "request_interceptor (idle_client\<lparr>authToken := JStr ''abc123''\<rparr>) plain_request
     = Inr (plain_request\<lparr>authorization := Some ''Token abc123''\<rparr>)
   \<and> request_interceptor (idle_client\<lparr>authToken := JStr ''Token abc123''\<rparr>) plain_request
     = Inr (plain_request\<lparr>authorization := Some ''Token abc123''\<rparr>)"
  using token_prefix_header [of "idle_client\<lparr>authToken := JStr ''abc123''\<rparr>" "''abc123''" plain_request "server_answers 200 JNull"]
    token_prefix_header [of "idle_client\<lparr>authToken := JStr ''Token abc123''\<rparr>" "''Token abc123''" plain_request "server_answers 200 JNull"]
  by (simp add: startsWith_def)

section \<open>The 401 path of the response interceptor\<close>

text \<open>A marked request goes to the network at most once and never starts a refresh.\<close>

lemma api_request_marked:
  assumes "retry c"
  shows "(sent (fst (api_request e s c)) = sent s
           \<or> (\<exists>c'. sent (fst (api_request e s c)) = sent s @ [(Api, c')]))
         \<and> refresh_calls (fst (api_request e s c)) = refresh_calls s"
proof (cases "request_interceptor s c")
  case (Inl err)
  then have "err = TypeError (NotAFunction ''authToken.startsWith'')"
    by (auto simp: request_interceptor_def split: if_splits json.splits)
  then show ?thesis using Inl
    by (simp add: api_request.simps [of e s c] response_rejected_def)
next
  case (Inr c')
  then have m: "retry c'" using assms request_interceptor_retry by blast
  show ?thesis using Inr m
    by (simp add: api_request.simps [of e s c] dispatch_def response_rejected_def Let_def
        split: net_result.splits)
qed

text \<open>
  C3: for a request whose config carries the \<open>_retry\<close> mark and which fails with 401, the
  response interceptor does not call \<open>refreshToken\<close> and does not re-issue the request
  (its result does not depend on \<open>resend\<close>, and nothing is sent); it clears the stored
  token and user, removes their persisted entries when the storage call succeeds, and rejects
  with the session-expired error. A marked request handed to \<open>api\<close> reaches the network
  at most once and never starts a refresh.
\<close>

theorem marked_request_not_retried:
  assumes "err_response error = Some r" and "status r = 401"
    and "err_config error = Some c" and "retry c"
  shows "response_rejected resend e s error
           = (redirectToLogin (clearAuth e s), Rejected (Error ''Session expired. Please log in again.''))
         \<and> authToken (fst (response_rejected resend e s error)) = JNull
         \<and> currentUser (fst (response_rejected resend e s error)) = JNull
         \<and> refresh_calls (fst (response_rejected resend e s error)) = refresh_calls s
         \<and> sent (fst (response_rejected resend e s error)) = sent s
         \<and> (\<not> storage_fails e (storage_calls s) \<longrightarrow>
              storage (fst (response_rejected resend e s error)) AUTH_TOKEN_KEY = None
              \<and> storage (fst (response_rejected resend e s error)) USER_DATA_KEY = None)
         \<and> (sent (fst (api_request e s c)) = sent s
              \<or> (\<exists>c'. sent (fst (api_request e s c)) = sent s @ [(Api, c')]))
         \<and> refresh_calls (fst (api_request e s c)) = refresh_calls s"
proof -
  have "response_rejected resend e s error
      = (redirectToLogin (clearAuth e s), Rejected (Error ''Session expired. Please log in again.''))"
    using assms by (simp add: response_rejected_def)
  then show ?thesis
    using api_request_marked [OF assms(4), of e s] by (simp add: clearAuth_storage)
qed

text \<open>C3 at a marked request answered with 401, for a client holding a token and a user.\<close>

theorem marked_request_not_retried_witness:
  "response_rejected (api_request (server_answers 401 JNull)) (server_answers 401 JNull)
       (idle_client\<lparr>authToken := JStr ''abc123'', currentUser := JStr ''ann''\<rparr>)
       (AxiosError (Some unauthorized) (plain_request\<lparr>retry := True\<rparr>))
     = (redirectToLogin (clearAuth (server_answers 401 JNull)
          (idle_client\<lparr>authToken := JStr ''abc123'', currentUser := JStr ''ann''\<rparr>)),
        Rejected (Error ''Session expired. Please log in again.''))
   \<and> authToken (fst (response_rejected (api_request (server_answers 401 JNull)) (server_answers 401 JNull)
       (idle_client\<lparr>authToken := JStr ''abc123'', currentUser := JStr ''ann''\<rparr>)
       (AxiosError (Some unauthorized) (plain_request\<lparr>retry := True\<rparr>)))) = JNull"
  using marked_request_not_retried [of "AxiosError (Some unauthorized) (plain_request\<lparr>retry := True\<rparr>)"
      unauthorized "plain_request\<lparr>retry := True\<rparr>" "api_request (server_answers 401 JNull)"
      "server_answers 401 JNull" "idle_client\<lparr>authToken := JStr ''abc123'', currentUser := JStr ''ann''\<rparr>"]
  by (simp add: unauthorized_def)

text \<open>
  C2, as stated, fails: while a refresh is in progress, a request that already carries the
  \<open>_retry\<close> mark and fails with 401 is not enqueued; the queue stays empty and the
  request is rejected.
\<close>

theorem marked_request_not_queued_counterexample:
  "isRefreshing refreshing_client
   \<and> response_rejected (api_request (server_answers 401 JNull)) (server_answers 401 JNull) refreshing_client
        (AxiosError (Some unauthorized) (plain_request\<lparr>retry := True\<rparr>))
      = (redirectToLogin (clearAuth (server_answers 401 JNull) refreshing_client),
         Rejected (Error ''Session expired. Please log in again.''))
   \<and> failedQueue (redirectToLogin (clearAuth (server_answers 401 JNull) refreshing_client)) = []"
  by (simp add: response_rejected_def unauthorized_def refreshing_client_def idle_client_def)

text \<open>
  C2, amended: while a refresh is in progress, every further request that fails with 401
  and does not yet carry the \<open>_retry\<close> mark is enqueued in \<open>failedQueue\<close>, with
  nothing else in the state changed (so no refresh is started and nothing is sent); and
  \<open>processQueue(error, token)\<close> settles every queued entry, in order, with a rejection
  by the error when one is given and with the token otherwise, and leaves the queue empty.
\<close>

theorem queued_while_refreshing:
  "(isRefreshing s \<and> err_response error = Some r \<and> status r = 401
      \<and> err_config error = Some c \<and> \<not> retry c \<longrightarrow>
      response_rejected resend e s error
        = (s\<lparr>failedQueue := failedQueue s @ [c\<lparr>retry := True\<rparr>]\<rparr>, Queued (c\<lparr>retry := True\<rparr>)))
   \<and> failedQueue (processQueue err token s) = []
   \<and> settled (processQueue err token s)
       = settled s @ map (\<lambda>prom. (prom, case err of Some x \<Rightarrow> RejectWith x | None \<Rightarrow> ResolveWith token))
                       (failedQueue s)"
  by (simp add: response_rejected_def processQueue_def)

text \<open>
  C2, amended, at an unmarked request answered with 401 during a refresh, and at a queue
  of one entry processed with an error and with a token.
\<close>

theorem queued_while_refreshing_witness:
  "response_rejected (api_request (server_answers 401 JNull)) (server_answers 401 JNull) refreshing_client
        (AxiosError (Some unauthorized) plain_request)
      = (refreshing_client\<lparr>failedQueue := [plain_request\<lparr>retry := True\<rparr>]\<rparr>,
         Queued (plain_request\<lparr>retry := True\<rparr>))
   \<and> settled (processQueue (Some (Error ''Failed to refresh token'')) JNull
         (refreshing_client\<lparr>failedQueue := [plain_request\<lparr>retry := True\<rparr>]\<rparr>))
      = [(plain_request\<lparr>retry := True\<rparr>, RejectWith (Error ''Failed to refresh token''))]
   \<and> settled (processQueue None (JStr ''new'')
         (refreshing_client\<lparr>failedQueue := [plain_request\<lparr>retry := True\<rparr>]\<rparr>))
      = [(plain_request\<lparr>retry := True\<rparr>, ResolveWith (JStr ''new''))]"
  using queued_while_refreshing [of refreshing_client "AxiosError (Some unauthorized) plain_request"
      unauthorized plain_request "api_request (server_answers 401 JNull)" "server_answers 401 JNull"
      "Some (Error ''Failed to refresh token'')" JNull]
    queued_while_refreshing [of "refreshing_client\<lparr>failedQueue := [plain_request\<lparr>retry := True\<rparr>]\<rparr>" _ _ _ _ _
      "Some (Error ''Failed to refresh token'')" JNull]
    queued_while_refreshing [of "refreshing_client\<lparr>failedQueue := [plain_request\<lparr>retry := True\<rparr>]\<rparr>" _ _ _ _ _
      None "JStr ''new''"]
  by (simp add: unauthorized_def refreshing_client_def idle_client_def plain_request_def)

section \<open>Errors of the analysis request\<close>

text \<open>What \<open>api\<close> does with a first answer that is neither 2xx nor 401.\<close>

lemma api_request_refused:
  assumes "request_interceptor s c = Inr c'"
    and "net e (length (sent s)) = Responded r"
    and "\<not> (200 \<le> status r \<and> status r < 300)" and "status r \<noteq> 401"
  shows "api_request e s c =
           (s\<lparr>sent := sent s @ [(Api, c')]\<rparr>,
            Rejected (if status r = 403 then Error ''You do not have permission to perform this action.''
                      else if status r = 404 then Error ''The requested resource was not found.''
                      else if status r = 400 then Error (bad_request_message (data r))
                      else AxiosError (Some r) c'))"
  using assms
  by (simp add: api_request.simps [of e s c] dispatch_def response_rejected_def Let_def)

lemma refreshToken_without_refresh_token:
  assumes "storage s REFRESH_TOKEN_KEY = None"
  shows "snd (refreshToken e s) = False \<and> sent (fst (refreshToken e s)) = sent s"
  using assms by (simp add: refreshToken_def getItem_def Let_def of_undefined_def)

lemma api_request_unauthorized:
  assumes "request_interceptor s c = Inr c'" and "\<not> retry c"
    and "net e (length (sent s)) = Responded r" and "status r = 401"
    and "\<not> isRefreshing s" and "storage s REFRESH_TOKEN_KEY = None"
  shows "snd (api_request e s c) = Rejected (Error ''Session expired. Please log in again.'')
         \<and> authToken (fst (api_request e s c)) = JNull
         \<and> sent (fst (api_request e s c)) = sent s @ [(Api, c')]"
proof -
  let ?s1 = "s\<lparr>sent := sent s @ [(Api, c')], isRefreshing := True\<rparr>"
  have m: "\<not> retry c'" using assms(1,2) by (auto simp: request_interceptor_def split: if_splits json.splits)
  obtain s2 ok where rt: "refreshToken e ?s1 = (s2, ok)" by (cases "refreshToken e ?s1")
  have "\<not> ok" and "sent s2 = sent s @ [(Api, c')]"
    using refreshToken_without_refresh_token [of ?s1 e] assms(6) rt by simp_all
  then show ?thesis using assms m rt
    by (simp add: api_request.simps [of e s c] dispatch_def response_rejected_def Let_def
        refresh_and_retry_def)
qed

text \<open>
  C4, as stated, fails twice. A 404 answer never reaches the 404 branch of
  \<open>analyzeVoiceComparison\<close>, because the response interceptor replaces it by an error
  without a response: the error thrown does not name the clip. And after a 401 answer the
  interceptor refreshes the token and re-issues the request: the function resolves, and the
  stored token is the fresh one, not cleared.
\<close>

theorem interceptor_first_counterexample:
  "snd (analyzeVoiceComparison (server_answers 404 (JObj [])) idle_client ''clip-1'' None ''test-1'' 0)
     = Rejected (Error ''Error: The requested resource was not found.'')
   \<and> Error ''Error: The requested resource was not found.''
       \<noteq> Error (''Original voice clip with ID '' @ ''clip-1'' @ '' was not found.'')
   \<and> net refreshing_server (length (sent logged_in_client)) = Responded \<lparr>status = 401, data = JNull\<rparr>
   \<and> snd (analyzeVoiceComparison refreshing_server logged_in_client ''clip-1'' None ''test-1'' 0)
     = Resolved (JObj [(''similarityScore'', JNum 1)])
   \<and> authToken (fst (analyzeVoiceComparison refreshing_server logged_in_client ''clip-1'' None ''test-1'' 0))
     = JStr ''fresh''"
proof -
  have "snd (analyzeVoiceComparison (server_answers 404 (JObj [])) idle_client ''clip-1'' None ''test-1'' 0)
     = Rejected (Error ''Error: The requested resource was not found.'')"
    by (simp add: analyzeVoiceComparison_def analyze_finish_def analyze_catch_def api_request.simps
        request_interceptor_def dispatch_def response_rejected_def server_answers_def idle_client_def)
  moreover have "net refreshing_server (length (sent logged_in_client)) = Responded \<lparr>status = 401, data = JNull\<rparr>"
    by (simp add: refreshing_server_def logged_in_client_def idle_client_def)
  moreover have "snd (analyzeVoiceComparison refreshing_server logged_in_client ''clip-1'' None ''test-1'' 0)
     = Resolved (JObj [(''similarityScore'', JNum 1)])"
    by code_simp
  moreover have "authToken (fst (analyzeVoiceComparison refreshing_server logged_in_client ''clip-1'' None ''test-1'' 0))
     = JStr ''fresh''"
    by code_simp
  ultimately show ?thesis by simp
qed

text \<open>
  Two more answers the function does not map the way C4 says: a 403 is no generic server
  error, and an error answer with a \<open>null\<close> body makes the catch block itself throw.
\<close>

lemma analyze_forbidden:
  "snd (analyzeVoiceComparison (server_answers 403 (JObj [])) idle_client ''clip-1'' None ''test-1'' 0)
     = Rejected (Error ''Error: You do not have permission to perform this action.'')"
  by code_simp

lemma analyze_null_error_body:
  "snd (analyzeVoiceComparison (server_answers 500 JNull) idle_client ''clip-1'' None ''test-1'' 0)
     = Rejected (TypeError (PropertyOfNull ''message''))"
  by code_simp

text \<open>
  C4, amended: when the first answer to the analysis request (file null or valid, token
  null or a string) is not 2xx, then for every status other than 401 the function throws
  and does not resolve: the oversize error for 413, the unsupported-media error for 415,
  and \<open>Server error: \<close> with the body's message (or \<open>Unknown error\<close>) for every
  status other than 400, 401, 403, 404, 413 and 415 whose body is not null. On a 401 with
  no refresh in progress and no refresh token stored, the function throws and the stored
  auth token is cleared.
\<close>

theorem status_mapping:
  assumes "userAudioFile = None \<or> (\<exists>f. userAudioFile = Some f \<and> validate_audio f = None)"
    and "authToken s = JNull \<or> (\<exists>t. authToken s = JStr t)"
    and "net e (length (sent s)) = Responded r"
    and "\<not> (200 \<le> status r \<and> status r < 300)"
  shows "(status r \<noteq> 401 \<longrightarrow>
           (\<exists>err. snd (analyzeVoiceComparison e s originalClipId userAudioFile testId test_type) = Rejected err))
       \<and> (status r = 413 \<longrightarrow>
           snd (analyzeVoiceComparison e s originalClipId userAudioFile testId test_type)
             = Rejected (Error ''The audio file is too large. Please use a smaller file.''))
       \<and> (status r = 415 \<longrightarrow>
           snd (analyzeVoiceComparison e s originalClipId userAudioFile testId test_type)
             = Rejected (Error ''The audio file format is not supported. Please upload an MP3 file.''))
       \<and> (status r \<notin> {400, 401, 403, 404, 413, 415} \<and> data r \<noteq> JNull \<longrightarrow>
           snd (analyzeVoiceComparison e s originalClipId userAudioFile testId test_type)
             = Rejected (Error (''Server error: '' @
                 (if truthy (js_prop (data r) ''message'') then js_to_string (js_prop (data r) ''message'')
                  else ''Unknown error''))))
       \<and> (status r = 401 \<and> \<not> isRefreshing s \<and> storage s REFRESH_TOKEN_KEY = None \<longrightarrow>
           (\<exists>err. snd (analyzeVoiceComparison e s originalClipId userAudioFile testId test_type) = Rejected err)
           \<and> authToken (fst (analyzeVoiceComparison e s originalClipId userAudioFile testId test_type)) = JNull)"
proof -
  let ?c = "analyze_config originalClipId userAudioFile testId test_type"
  let ?a = "analyzeVoiceComparison e s originalClipId userAudioFile testId test_type"
  obtain c' where ri: "request_interceptor s ?c = Inr c'"
    using request_interceptor_typed [OF assms(2)] by blast
  have a: "?a = analyze_finish e originalClipId (api_request e s ?c)"
    using assms(1) by (auto simp: analyzeVoiceComparison_def)
  have other: "status r \<noteq> 401 \<Longrightarrow> api_request e s ?c =
           (s\<lparr>sent := sent s @ [(Api, c')]\<rparr>,
            Rejected (if status r = 403 then Error ''You do not have permission to perform this action.''
                      else if status r = 404 then Error ''The requested resource was not found.''
                      else if status r = 400 then Error (bad_request_message (data r))
                      else AxiosError (Some r) c'))"
    using api_request_refused [OF ri assms(3,4)] by simp
  have p1: "status r \<noteq> 401 \<longrightarrow> (\<exists>err. snd ?a = Rejected err)"
    using other by (auto simp: a analyze_finish_def split: prod.splits)
  have p2: "status r = 413 \<longrightarrow> snd ?a = Rejected (Error ''The audio file is too large. Please use a smaller file.'')"
    using other by (auto simp: a analyze_finish_def analyze_catch_def)
  have p3: "status r = 415 \<longrightarrow> snd ?a = Rejected (Error ''The audio file format is not supported. Please upload an MP3 file.'')"
    using other by (auto simp: a analyze_finish_def analyze_catch_def)
  have p4: "status r \<notin> {400, 401, 403, 404, 413, 415} \<and> data r \<noteq> JNull \<longrightarrow>
           snd ?a = Rejected (Error (''Server error: '' @
                 (if truthy (js_prop (data r) ''message'') then js_to_string (js_prop (data r) ''message'')
                  else ''Unknown error'')))"
  proof (intro impI, elim conjE)
    assume st: "status r \<notin> {400, 401, 403, 404, 413, 415}" and d: "data r \<noteq> JNull"
    have "get_prop (data r) ''message'' = Inr (case data r of JObj kvs \<Rightarrow> map_of kvs ''message'' | _ \<Rightarrow> None)"
      using d by (cases "data r") simp_all
    moreover have "truthy_opt (case data r of JObj kvs \<Rightarrow> map_of kvs ''message'' | _ \<Rightarrow> None)
        = truthy (js_prop (data r) ''message'')"
      by (cases "data r") (simp_all add: truthy_opt_def js_prop_def of_undefined_def split: option.splits)
    moreover have "of_undefined (case data r of JObj kvs \<Rightarrow> map_of kvs ''message'' | _ \<Rightarrow> None)
        = js_prop (data r) ''message''"
      by (cases "data r") (simp_all add: js_prop_def of_undefined_def)
    ultimately show "snd ?a = Rejected (Error (''Server error: '' @
                 (if truthy (js_prop (data r) ''message'') then js_to_string (js_prop (data r) ''message'')
                  else ''Unknown error'')))"
      using other st by (simp add: a analyze_finish_def analyze_catch_def)
  qed
  have p5: "status r = 401 \<and> \<not> isRefreshing s \<and> storage s REFRESH_TOKEN_KEY = None \<longrightarrow>
           (\<exists>err. snd ?a = Rejected err) \<and> authToken (fst ?a) = JNull"
  proof (intro impI, elim conjE)
    assume h: "status r = 401" "\<not> isRefreshing s" "storage s REFRESH_TOKEN_KEY = None"
    have "\<not> retry ?c" by (simp add: analyze_config_def)
    from api_request_unauthorized [OF ri this assms(3) h]
    show "(\<exists>err. snd ?a = Rejected err) \<and> authToken (fst ?a) = JNull"
      by (cases "api_request e s ?c") (simp add: a analyze_finish_def analyze_catch_def)
  qed
  from p1 p2 p3 p4 p5 show ?thesis by blast
qed

text \<open>C4, amended, at a 413, at a 500 with a message, and at a 401 without refresh token.\<close>

theorem status_mapping_witness:
  "snd (analyzeVoiceComparison (server_answers 413 (JObj [])) idle_client ''clip-1'' None ''test-1'' 0)
     = Rejected (Error ''The audio file is too large. Please use a smaller file.'')
   \<and> snd (analyzeVoiceComparison (server_answers 500 (JObj [(''message'', JStr ''boom'')])) idle_client
            ''clip-1'' None ''test-1'' 0)
     = Rejected (Error ''Server error: boom'')
   \<and> authToken (fst (analyzeVoiceComparison (server_answers 401 (JObj []))
        (idle_client\<lparr>authToken := JStr ''abc123''\<rparr>) ''clip-1'' None ''test-1'' 0)) = JNull"
  using status_mapping [of None idle_client "server_answers 413 (JObj [])" "\<lparr>status = 413, data = JObj []\<rparr>"
      "''clip-1''" "''test-1''" 0]
    status_mapping [of None idle_client "server_answers 500 (JObj [(''message'', JStr ''boom'')])"
      "\<lparr>status = 500, data = JObj [(''message'', JStr ''boom'')]\<rparr>" "''clip-1''" "''test-1''" 0]
    status_mapping [of None "idle_client\<lparr>authToken := JStr ''abc123''\<rparr>" "server_answers 401 (JObj [])"
      "\<lparr>status = 401, data = JObj []\<rparr>" "''clip-1''" "''test-1''" 0]
  by (simp add: server_answers_def idle_client_def js_prop_def of_undefined_def)

section \<open>Login\<close>

text \<open>The token selection on a body that is not \<open>null\<close>.\<close>

lemma login_token_cases:
  assumes "d \<noteq> JNull"
  shows "login_token e s d =
     (if truthy (js_prop d ''token'') then (s, Inr (js_prop d ''token''))
      else if truthy (js_prop d ''key'') then (s, Inr (js_prop d ''key''))
      else if truthy (js_prop d ''access'') then
        (if truthy (js_prop d ''refresh'') then
           (case setItem e REFRESH_TOKEN_KEY (js_prop d ''refresh'') s of
              (s1, True) \<Rightarrow> (s1, Inr (js_prop d ''access''))
            | (s1, False) \<Rightarrow> (s1, Inl StorageError))
         else (s, Inr (js_prop d ''access'')))
      else (s, Inr JNull))"
  using get_prop_not_null [OF assms, of "''token''"] by (auto simp: login_token_def)

lemma login_reaches_success:
  assumes "username cr \<noteq> []" "password cr \<noteq> []" "login_response e s = Some r"
  shows "\<exists>s1. login_try e s cr = login_success e s1 r \<and> authToken s1 = authToken s
           \<and> currentUser s1 = currentUser s \<and> storage s1 = storage s \<and> storage_calls s1 = storage_calls s"
  using assms
  by (auto simp: login_try_def login_response_def authApi_post_def dispatch_def Let_def ok_status_def
      split: net_result.splits if_splits)

text \<open>
  C6, as stated, fails: for a 2xx response whose body is \<open>null\<close> none of the three
  fields is present, yet the first field read throws and \<open>login\<close> rejects instead of
  resolving with the body.
\<close>

theorem null_body_counterexample:
  "get_prop JNull ''token'' = Inl (PropertyOfNull ''token'')
   \<and> login (server_answers 200 JNull) idle_client ann
       = (idle_client\<lparr>sent := [(AuthApi,
             \<lparr>url = ''/auth/login/'', authorization = None, content_type = ''application/json'',
              payload = JsonPayload (JObj [(''username'', JStr ''ann''), (''password'', JStr ''secret'')]),
              retry = False\<rparr>)]\<rparr>,
          Rejected (Error ''Login failed. Please try again.''))"
  by (simp add: login_def login_try_def login_success_def login_token_def login_catch_def ann_def
      authApi_post_def dispatch_def server_answers_def idle_client_def)

text \<open>
  C6, amended: for a 2xx login response whose body is not \<open>null\<close>, the session token
  is the first truthy field among \<open>token\<close>, \<open>key\<close>, \<open>access\<close>, in this order.
  The stored refresh token changes only in the \<open>access\<close> case with a truthy
  \<open>refresh\<close> field (and is then that field, when the storage call succeeds). When none
  of the three fields is truthy, nothing is stored (token, user and storage are untouched)
  and \<open>login\<close> still resolves with the raw body, as it does in the other cases listed.
\<close>

theorem login_token_selection:
  assumes "username cr \<noteq> []" and "password cr \<noteq> []"
    and "login_response e s = Some r" and "data r \<noteq> JNull"
  shows "(truthy (js_prop (data r) ''token'') \<longrightarrow>
            snd (login e s cr) = Resolved (data r)
            \<and> authToken (fst (login e s cr)) = js_prop (data r) ''token''
            \<and> storage (fst (login e s cr)) REFRESH_TOKEN_KEY = storage s REFRESH_TOKEN_KEY)
       \<and> (\<not> truthy (js_prop (data r) ''token'') \<and> truthy (js_prop (data r) ''key'') \<longrightarrow>
            snd (login e s cr) = Resolved (data r)
            \<and> authToken (fst (login e s cr)) = js_prop (data r) ''key''
            \<and> storage (fst (login e s cr)) REFRESH_TOKEN_KEY = storage s REFRESH_TOKEN_KEY)
       \<and> (\<not> truthy (js_prop (data r) ''token'') \<and> \<not> truthy (js_prop (data r) ''key'')
            \<and> truthy (js_prop (data r) ''access'') \<and> \<not> truthy (js_prop (data r) ''refresh'') \<longrightarrow>
            snd (login e s cr) = Resolved (data r)
            \<and> authToken (fst (login e s cr)) = js_prop (data r) ''access''
            \<and> storage (fst (login e s cr)) REFRESH_TOKEN_KEY = storage s REFRESH_TOKEN_KEY)
       \<and> (\<not> truthy (js_prop (data r) ''token'') \<and> \<not> truthy (js_prop (data r) ''key'')
            \<and> truthy (js_prop (data r) ''access'') \<and> truthy (js_prop (data r) ''refresh'')
            \<and> \<not> storage_fails e (storage_calls s) \<longrightarrow>
            snd (login e s cr) = Resolved (data r)
            \<and> authToken (fst (login e s cr)) = js_prop (data r) ''access''
            \<and> storage (fst (login e s cr)) REFRESH_TOKEN_KEY = Some (js_prop (data r) ''refresh''))
       \<and> (\<not> truthy (js_prop (data r) ''token'') \<and> \<not> truthy (js_prop (data r) ''key'')
            \<and> \<not> truthy (js_prop (data r) ''access'') \<longrightarrow>
            snd (login e s cr) = Resolved (data r)
            \<and> authToken (fst (login e s cr)) = authToken s
            \<and> currentUser (fst (login e s cr)) = currentUser s
            \<and> storage (fst (login e s cr)) = storage s
            \<and> storage_calls (fst (login e s cr)) = storage_calls s)"
proof -
  obtain s1 where s1: "login_try e s cr = login_success e s1 r" "authToken s1 = authToken s"
    "currentUser s1 = currentUser s" "storage s1 = storage s" "storage_calls s1 = storage_calls s"
    using login_reaches_success [OF assms(1-3)] by blast
  note tok = login_token_cases [OF assms(4), of e s1]
  have l: "login e s cr = (case login_success e s1 r of
        (s2, Inr d) \<Rightarrow> (s2, Resolved d) | (s2, Inl error) \<Rightarrow> (s2, Rejected (login_catch error)))"
    by (simp add: login_def s1(1))
  show ?thesis
    using s1(2-5)
    by (auto simp: l login_success_def tok setCurrentUser_storage setAuthToken_storage
        setItem_def storage_write_def Let_def)
qed

text \<open>
  C6, amended, at a body with \<open>key\<close> and \<open>access\<close>, at a JWT body with
  \<open>refresh\<close>, and at a body with none of the fields.
\<close>

theorem login_token_selection_witness:
  "authToken (fst (login (server_answers 200 (JObj [(''key'', JStr ''k1''), (''access'', JStr ''a1'')])) idle_client ann))
     = JStr ''k1''
   \<and> storage (fst (login (server_answers 200 (JObj [(''access'', JStr ''a1''), (''refresh'', JStr ''r1'')]))
        idle_client ann)) REFRESH_TOKEN_KEY = Some (JStr ''r1'')
   \<and> login (server_answers 200 (JObj [(''detail'', JStr ''ok'')])) idle_client ann
     = (fst (login (server_answers 200 (JObj [(''detail'', JStr ''ok'')])) idle_client ann),
        Resolved (JObj [(''detail'', JStr ''ok'')]))
   \<and> authToken (fst (login (server_answers 200 (JObj [(''detail'', JStr ''ok'')])) idle_client ann)) = JNull"
  using login_token_selection [of ann "server_answers 200 (JObj [(''key'', JStr ''k1''), (''access'', JStr ''a1'')])"
      idle_client "\<lparr>status = 200, data = JObj [(''key'', JStr ''k1''), (''access'', JStr ''a1'')]\<rparr>"]
    login_token_selection [of ann "server_answers 200 (JObj [(''access'', JStr ''a1''), (''refresh'', JStr ''r1'')])"
      idle_client "\<lparr>status = 200, data = JObj [(''access'', JStr ''a1''), (''refresh'', JStr ''r1'')]\<rparr>"]
    login_token_selection [of ann "server_answers 200 (JObj [(''detail'', JStr ''ok'')])"
      idle_client "\<lparr>status = 200, data = JObj [(''detail'', JStr ''ok'')]\<rparr>"]
  by (simp add: ann_def login_response_def ok_status_def server_answers_def js_prop_def of_undefined_def
      idle_client_def prod_eq_iff)

section \<open>Logout\<close>

lemma logout_catch_memory:
  "authToken (fst (logout_catch e s)) = JNull \<and> currentUser (fst (logout_catch e s)) = JNull"
  by (cases "removeItem e REFRESH_TOKEN_KEY (clearAuth e s)")
     (use removeItem_proj [of e REFRESH_TOKEN_KEY "clearAuth e s"] in \<open>auto simp: logout_catch_def split: bool.splits\<close>)

text \<open>
  C8, as stated, fails: when AsyncStorage fails, \<open>logout\<close> rejects (the
  \<open>removeItem\<close> of its catch block is not guarded) and the persisted token and refresh
  token are still there.
\<close>

theorem logout_storage_counterexample:
  "snd (logout storage_broken logged_in_client) = Rejected StorageError
   \<and> storage (fst (logout storage_broken logged_in_client)) AUTH_TOKEN_KEY = Some (JStr ''abc123'')
   \<and> storage (fst (logout storage_broken logged_in_client)) REFRESH_TOKEN_KEY = Some (JStr ''r1'')"
  by (simp add: logout_def logout_catch_def authApi_post_def dispatch_def storage_broken_def
      logged_in_client_def idle_client_def clearAuth_def multiRemove_def removeItem_def storage_write_def
      AUTH_TOKEN_KEY_def USER_DATA_KEY_def REFRESH_TOKEN_KEY_def)

text \<open>
  C8, amended: whether the server logout request succeeds or fails, and whether or not
  AsyncStorage fails, \<open>logout\<close> clears the in-memory auth token and current user; when
  its two storage calls succeed, it also removes the persisted auth-token, user-data and
  refresh-token entries and resolves normally.
\<close>

theorem logout_clears:
  "authToken (fst (logout e s)) = JNull
   \<and> currentUser (fst (logout e s)) = JNull
   \<and> (\<not> storage_fails e (storage_calls s) \<and> \<not> storage_fails e (Suc (storage_calls s)) \<longrightarrow>
        snd (logout e s) = Resolved ()
        \<and> storage (fst (logout e s)) AUTH_TOKEN_KEY = None
        \<and> storage (fst (logout e s)) USER_DATA_KEY = None
        \<and> storage (fst (logout e s)) REFRESH_TOKEN_KEY = None)"
proof -
  obtain s1 res where p: "authApi_post e ''/auth/logout/'' ''application/json'' NoPayload s = (s1, res)"
    by (cases "authApi_post e ''/auth/logout/'' ''application/json'' NoPayload s")
  have s1: "storage_calls s1 = storage_calls s" "storage s1 = storage s"
    using p by (auto simp: authApi_post_def dispatch_def Let_def split: net_result.splits if_splits)
  have mem: "authToken (fst (logout e s)) = JNull \<and> currentUser (fst (logout e s)) = JNull"
  proof (cases res)
    case (Inl err)
    then show ?thesis using p logout_catch_memory [of e s1] by (simp add: logout_def)
  next
    case (Inr r)
    obtain s2 ok where r2: "removeItem e REFRESH_TOKEN_KEY (clearAuth e s1) = (s2, ok)"
      by (cases "removeItem e REFRESH_TOKEN_KEY (clearAuth e s1)")
    then have "authToken s2 = JNull \<and> currentUser s2 = JNull"
      using removeItem_proj [of e REFRESH_TOKEN_KEY "clearAuth e s1"] by simp
    then show ?thesis using Inr p r2 logout_catch_memory [of e s2]
      by (cases ok) (simp_all add: logout_def)
  qed
  have sto: "snd (logout e s) = Resolved ()
        \<and> storage (fst (logout e s)) AUTH_TOKEN_KEY = None
        \<and> storage (fst (logout e s)) USER_DATA_KEY = None
        \<and> storage (fst (logout e s)) REFRESH_TOKEN_KEY = None"
    if "\<not> storage_fails e (storage_calls s)" "\<not> storage_fails e (Suc (storage_calls s))"
    using that p s1
    by (cases res)
       (simp_all add: logout_def logout_catch_def clearAuth_def multiRemove_def removeItem_def
         storage_write_def Let_def)
  from mem sto show ?thesis by blast
qed

text \<open>
  C8, amended, at a failing server with working storage (resolves, everything removed) and
  at failing storage (memory still cleared).
\<close>

theorem logout_clears_witness:
  "snd (logout (server_answers 500 JNull) logged_in_client) = Resolved ()
   \<and> authToken (fst (logout (server_answers 500 JNull) logged_in_client)) = JNull
   \<and> storage (fst (logout (server_answers 500 JNull) logged_in_client)) REFRESH_TOKEN_KEY = None
   \<and> authToken (fst (logout storage_broken logged_in_client)) = JNull"
  using logout_clears [of "server_answers 500 JNull" logged_in_client]
    logout_clears [of storage_broken logged_in_client]
  by (simp add: server_answers_def)

section \<open>The alignment engine: every alignment is a warping path\<close>

lemma steps_ok_snoc: "steps_ok (ps @ [q]) = (ps = [] \<or> (steps_ok ps \<and> step (last ps) q))"
  by (induction ps rule: steps_ok.induct) auto

lemma predecessors_step: "p \<in> set (predecessors i j) \<Longrightarrow> step p (i, j)"
  by (drule predecessors_cases) (auto simp: step_def)

lemma in_band_origin: "in_band w n m 0 0"
  by (simp add: in_band_def)

lemma in_band_end: "0 < n \<Longrightarrow> 0 < m \<Longrightarrow> in_band w n m (n - 1) (m - 1)"
  by (auto simp: in_band_def Let_def)

lemma in_band_predecessor:
  assumes "in_band w n m i j" and "\<not> (i = 0 \<and> j = 0)"
  shows "\<exists>p \<in> set (predecessors i j). in_band w n m (fst p) (snd p)"
proof -
  define width where "width = max w (if n \<le> m then m - n else n - m)"
  have b: "i \<le> j + width" "j \<le> i + width"
    using assms(1) by (simp_all add: in_band_def width_def Let_def)
  have r: "in_band w n m a c" if "a \<le> c + width" "c \<le> a + width" for a c
    using that by (simp add: in_band_def width_def Let_def)
  show ?thesis
  proof (cases "i = 0")
    case True
    then have "(0, j - 1) \<in> set (predecessors i j)" using assms(2) by (simp add: predecessors_def)
    moreover have "in_band w n m 0 (j - 1)" using b True by (intro r) simp_all
    ultimately show ?thesis by force
  next
    case False
    show ?thesis
    proof (cases "j = 0")
      case True
      then have "(i - 1, 0) \<in> set (predecessors i j)" using False by (simp add: predecessors_def)
      moreover have "in_band w n m (i - 1) 0" using b True by (intro r) simp_all
      ultimately show ?thesis by force
    next
      case j: False
      have "(i - 1, j - 1) \<in> set (predecessors i j)" using False j by (simp add: predecessors_def)
      moreover have "in_band w n m (i - 1) (j - 1)" using b False j by (intro r) simp_all
      ultimately show ?thesis by force
    qed
  qed
qed

lemma acc_cost_in_band: "in_band w n m i j \<Longrightarrow> acc_cost c (in_band w n m) i j \<noteq> None"
proof (induction "i + j" arbitrary: i j rule: less_induct)
  case less
  show ?case
  proof (cases "i = 0 \<and> j = 0")
    case True
    then show ?thesis using less.prems by (simp add: acc_cost.simps)
  next
    case False
    obtain p where p: "p \<in> set (predecessors i j)" "in_band w n m (fst p) (snd p)"
      using in_band_predecessor [OF less.prems False] by blast
    have "acc_cost c (in_band w n m) (fst p) (snd p) \<noteq> None"
      using less.hyps [of "fst p" "snd p"] p predecessors_smaller [of "fst p" "snd p" i j] by simp
    then obtain d where "acc_cost c (in_band w n m) (fst p) (snd p) = Some d" by blast
    from first_min_defined [of p "predecessors i j" "\<lambda>p. acc_cost c (in_band w n m) (fst p) (snd p)", OF p(1) this]
    obtain q where q: "first_min (\<lambda>p. acc_cost c (in_band w n m) (fst p) (snd p)) (predecessors i j) = Some q"
      by blast
    then have "acc_cost c (in_band w n m) (fst q) (snd q) \<noteq> None"
      using first_min_in by fastforce
    then show ?thesis using False less.prems q
      by (subst acc_cost.simps) auto
  qed
qed

lemma backtrack_defined: "acc_cost c b i j \<noteq> None \<Longrightarrow> backtrack c b i j \<noteq> None"
proof (induction "i + j" arbitrary: i j rule: less_induct)
  case less
  show ?case
  proof (cases "i = 0 \<and> j = 0")
    case True
    then show ?thesis by (simp add: backtrack.simps)
  next
    case False
    from less.prems False obtain q where
      q: "first_min (\<lambda>p. acc_cost c b (fst p) (snd p)) (predecessors i j) = Some q"
      by (subst (asm) acc_cost.simps) (auto split: if_splits option.splits)
    then have "q \<in> set (predecessors i j)" "acc_cost c b (fst q) (snd q) \<noteq> None"
      using first_min_in by fastforce+
    then have "backtrack c b (fst q) (snd q) \<noteq> None"
      using less.hyps [of "fst q" "snd q"] predecessors_smaller [of "fst q" "snd q" i j] by simp
    then show ?thesis using False q by (subst backtrack.simps) auto
  qed
qed

lemma backtrack_path:
  "backtrack c b i j = Some ps \<Longrightarrow> ps \<noteq> [] \<and> hd ps = (0, 0) \<and> last ps = (i, j) \<and> steps_ok ps"
proof (induction "i + j" arbitrary: i j ps rule: less_induct)
  case less
  show ?case
  proof (cases "i = 0 \<and> j = 0")
    case True
    then show ?thesis using less.prems by (auto simp: backtrack.simps)
  next
    case False
    from less.prems False obtain q qs where
      q: "first_min (\<lambda>p. acc_cost c b (fst p) (snd p)) (predecessors i j) = Some q"
      and qs: "backtrack c b (fst q) (snd q) = Some qs" and ps: "ps = qs @ [(i, j)]"
      by (subst (asm) backtrack.simps) (auto split: if_splits option.splits)
    have qin: "q \<in> set (predecessors i j)" using q first_min_in by fastforce
    have ih: "qs \<noteq> [] \<and> hd qs = (0, 0) \<and> last qs = (fst q, snd q) \<and> steps_ok qs"
      using less.hyps [of "fst q" "snd q" qs] qs predecessors_smaller [of "fst q" "snd q" i j] qin by simp
    then show ?thesis using ps predecessors_step [OF qin]
      by (simp add: steps_ok_snoc)
  qed
qed

lemma steps_cover:
  assumes "steps_ok ps" and "ps \<noteq> []"
  shows "sorted (map fst ps) \<and> sorted (map snd ps)
         \<and> fst ` set ps = {fst (hd ps)..fst (last ps)} \<and> snd ` set ps = {snd (hd ps)..snd (last ps)}"
  using assms
proof (induction ps rule: steps_ok.induct)
  case 1
  then show ?case by simp
next
  case (2 p)
  then show ?case by simp
next
  case (3 p q ps)
  then have ih: "sorted (map fst (q # ps))" "sorted (map snd (q # ps))"
    "fst ` set (q # ps) = {fst q..fst (last (q # ps))}" "snd ` set (q # ps) = {snd q..snd (last (q # ps))}"
    and st: "step p q"
    by simp_all
  have le: "fst q \<le> fst (last (q # ps))" "snd q \<le> snd (last (q # ps))"
    using ih(3,4) by (metis atLeastAtMost_iff image_eqI last_in_set list.distinct(1))+
  have f: "fst p \<le> fst q" "fst q \<le> Suc (fst p)" "snd p \<le> snd q" "snd q \<le> Suc (snd p)"
    using st by (auto simp: step_def)
  have s1: "sorted (map fst (p # q # ps))"
    using ih(1,3) f(1) by (auto simp: image_iff)
  have s2: "sorted (map snd (p # q # ps))"
    using ih(2,4) f(3) by (auto simp: image_iff)
  have c1: "fst ` set (p # q # ps) = {fst p..fst (last (p # q # ps))}"
  proof -
    have "fst ` set (p # q # ps) = insert (fst p) {fst q..fst (last (q # ps))}"
      using ih(3) by simp
    also have "\<dots> = {fst p..fst (last (q # ps))}"
      using f(1,2) le(1) by auto
    finally show ?thesis by simp
  qed
  have c2: "snd ` set (p # q # ps) = {snd p..snd (last (p # q # ps))}"
  proof -
    have "snd ` set (p # q # ps) = insert (snd p) {snd q..snd (last (q # ps))}"
      using ih(4) by simp
    also have "\<dots> = {snd p..snd (last (q # ps))}"
      using f(3,4) le(2) by auto
    finally show ?thesis by simp
  qed
  from s1 s2 c1 c2 show ?case by simp
qed

text \<open>
  C7: for any two feature sequences of at least the minimum frame count, the alignment
  engine produces an Alignment, and its path is a warping path: it starts at \<open>(0, 0)\<close>,
  ends at \<open>(lastUser, lastRef)\<close>, is non-decreasing in both indices, and has no gaps
  (every user frame and every reference frame occurs in it).
\<close>

theorem alignment_is_warping_path:
  assumes "MIN_FRAMES \<le> length user" and "MIN_FRAMES \<le> length reference"
  shows "\<exists>a. align t reference user = Inr a \<and> warping_path (length user) (length reference) (path a)"
proof -
  let ?n = "length user" and ?m = "length reference"
  let ?c = "\<lambda>i j. frame_cost t (user ! i) (reference ! j)"
  let ?b = "in_band (band_width t) ?n ?m"
  have pos: "0 < ?n" "0 < ?m" using assms by (auto simp: MIN_FRAMES_def)
  obtain d where d: "acc_cost ?c ?b (?n - 1) (?m - 1) = Some d"
    using acc_cost_in_band [OF in_band_end [OF pos]] by blast
  then obtain ps where ps: "backtrack ?c ?b (?n - 1) (?m - 1) = Some ps"
    using backtrack_defined [of ?c ?b "?n - 1" "?m - 1"] by auto
  have a: "align t reference user = Inr \<lparr>path = ps, path_cost = d, step_costs = map (\<lambda>(i, j). ?c i j) ps\<rparr>"
    using assms d ps by (simp add: align_def Let_def)
  have bp: "ps \<noteq> [] \<and> hd ps = (0, 0) \<and> last ps = (?n - 1, ?m - 1) \<and> steps_ok ps"
    using backtrack_path [OF ps] .
  have "{0..?n - 1} = {..<?n}" "{0..?m - 1} = {..<?m}"
    using assms unfolding MIN_FRAMES_def by (simp_all add: set_eq_iff) arith+
  then have "warping_path ?n ?m ps"
    using steps_cover [of ps] bp by (simp add: warping_path_def)
  then show ?thesis using a by simp
qed

text \<open>C7 at three user frames against five reference frames.\<close>

theorem alignment_is_warping_path_witness:
  "MIN_FRAMES \<le> length [voiced_low, voiced_high, silence] \<and> MIN_FRAMES \<le> length [voiced_low, voiced_low, voiced_high, voiced_high, silence]
   \<and> (\<exists>a. align narrow_band [voiced_low, voiced_low, voiced_high, voiced_high, silence] [voiced_low, voiced_high, silence] = Inr a
          \<and> warping_path (length [voiced_low, voiced_high, silence]) (length [voiced_low, voiced_low, voiced_high, voiced_high, silence]) (path a))"
  using alignment_is_warping_path [of "[voiced_low, voiced_high, silence]" "[voiced_low, voiced_low, voiced_high, voiced_high, silence]" narrow_band]
  by (simp add: MIN_FRAMES_def)

end
